theory Spec2Isabelle
  imports Main
begin

section \<open>Deployment of ReserveToken and DutchAuction on a testnet\<close>

text \<open>
  The development follows \<^verbatim>\<open>deploy/deploy_testnet.py\<close>. Python integers are unbounded
  and are modelled by \<^typ>\<open>int\<close>; Python strings by \<^typ>\<open>string\<close>, where a \<^typ>\<open>char\<close>
  is a code point below 256. Strings with other code points have no counterpart in the
  model.
\<close>

subsection \<open>The scale constant\<close>

text \<open>Line 16 of the script: \<^verbatim>\<open>multiplier = 10**18\<close>.\<close>

definition multiplier :: int where
  "multiplier = 10 ^ 18"

subsection \<open>Errors\<close>

text \<open>
  Every exception that can leave \<^verbatim>\<open>main\<close> is a value of one type: the Python built-in
  exceptions raised by the script's own statements, and the error taxonomy of the
  specification (section 7) for the imported functions and the chain gateway.
\<close>

datatype error =
    IndexError
  | ValueError
  | AssertionError
  | InvalidSampleError
  | DegenerateSampleError
  | UnsolvablePriceModel
  | DeploymentError
  | ConfirmationTimeoutError

subsection \<open>Price function model\<close>

text \<open>
  Modelled from the spec: the price function is evaluated by the deployed DutchAuction
  contract, whose source is not part of the script. Section 4.1 of the specification
  gives its canonical form
  \<^verbatim>\<open>price(elapsed, factor, constant) = floor(factor * SCALE / (constant + elapsed))\<close>.
  \<open>price_at\<close> is the same formula with the scale as an argument, as the solver receives
  it; \<open>price\<close> fixes the scale to the process-wide constant. Integer division on
  \<^typ>\<open>int\<close> is floor division.
\<close>

definition price_at :: "int \<Rightarrow> int \<Rightarrow> int \<Rightarrow> int \<Rightarrow> int" where
  "price_at scale elapsed factor constant = factor * scale div (constant + elapsed)"

definition price :: "int \<Rightarrow> int \<Rightarrow> int \<Rightarrow> int" where
  "price elapsed factor constant = price_at multiplier elapsed factor constant"

subsection \<open>Auction factor solver\<close>

text \<open>
  Modelled from the spec: \<^verbatim>\<open>getAuctionFactors\<close> is imported from the module
  \<^verbatim>\<open>simulation\<close>, which is not among the sources; only its call in \<^verbatim>\<open>main\<close>
  (five integers in, a pair out) is. The definition follows section 4.2:
  \<^item> negative inputs are an \<open>InvalidSampleError\<close>; a PricePoint is a pair of non-negative
    integers, so this check comes before any other;
  \<^item> equal prices are a \<open>DegenerateSampleError\<close>, and no division takes place;
  \<^item> otherwise \<^verbatim>\<open>constant = (p2*t2 - p1*t1) / (p1 - p2)\<close> and
    \<^verbatim>\<open>factor = p1*(constant + t1) / SCALE\<close>, in integer (floor) division;
  \<^item> the pair is returned when the price function, evaluated with it at \<open>t1\<close> and
    \<open>t2\<close>, gives back \<open>p1\<close> and \<open>p2\<close>; otherwise the report is
    \<open>UnsolvablePriceModel\<close>.
  The price function has no value where \<open>constant + elapsed = 0\<close>, and no factor
  exists for a scale of \<open>0\<close>; in both cases the samples are not reproduced.
\<close>

definition reproduces :: "int \<Rightarrow> int \<Rightarrow> int \<Rightarrow> int \<Rightarrow> int \<Rightarrow> bool" where
  "reproduces scale factor constant p t \<longleftrightarrow>
     constant + t \<noteq> 0 \<and> price_at scale t factor constant = p"

definition getAuctionFactors ::
  "int \<Rightarrow> int \<Rightarrow> int \<Rightarrow> int \<Rightarrow> int \<Rightarrow> error + int \<times> int" where
  "getAuctionFactors p1 t1 p2 t2 scale =
     (if p1 < 0 \<or> t1 < 0 \<or> p2 < 0 \<or> t2 < 0 then Inl InvalidSampleError
      else if p1 = p2 then Inl DegenerateSampleError
      else if scale = 0 then Inl UnsolvablePriceModel
      else
        let constant = (p2 * t2 - p1 * t1) div (p1 - p2);
            factor = p1 * (constant + t1) div scale
        in if reproduces scale factor constant p1 t1 \<and> reproduces scale factor constant p2 t2
           then Inr (factor, constant)
           else Inl UnsolvablePriceModel)"


section \<open>The script\<close>

subsection \<open>Python values and built-ins\<close>

text \<open>
  The constructor arguments handed to a contract deployment are Python integers, strings
  and lists of them.
\<close>

datatype pyval = PInt int | PStr string | PList "pyval list"

text \<open>
  \<^verbatim>\<open>s.split(',')\<close>: the fields between the commas, in order; a string without a comma
  (the empty string too) is one field.
\<close>

fun split_comma :: "string \<Rightarrow> string list" where
  "split_comma [] = [[]]"
| "split_comma (c # cs) =
     (if c = CHR '','' then [] # split_comma cs
      else (case split_comma cs of [] \<Rightarrow> [[c]] | f # fs \<Rightarrow> (c # f) # fs))"

text \<open>
  \<^verbatim>\<open>int(s)\<close> on a string; \<open>None\<close> stands for the \<^verbatim>\<open>ValueError\<close>. White space
  around the number is dropped: below code point 256 these are the characters 9 to 13,
  32, 133 and 160. What remains is an optional sign followed by decimal digits, where
  one underscore may stand between two digits. The only decimal digits below code point
  256 are \<^verbatim>\<open>0\<close> to \<^verbatim>\<open>9\<close>.
\<close>

definition is_space :: "char \<Rightarrow> bool" where
  "is_space c \<longleftrightarrow> (of_char c :: nat) \<in> {9, 10, 11, 12, 13, 32, 133, 160}"

definition py_strip :: "string \<Rightarrow> string" where
  "py_strip s = rev (dropWhile is_space (rev (dropWhile is_space s)))"

definition is_digit :: "char \<Rightarrow> bool" where
  "is_digit c \<longleftrightarrow> c \<in> set ''0123456789''"

fun underscored_digits :: "string \<Rightarrow> bool" where
  "underscored_digits [] = False"
| "underscored_digits [c] = is_digit c"
| "underscored_digits (c # d # cs) =
     (is_digit c \<and>
      (if d = CHR ''_'' then underscored_digits cs else underscored_digits (d # cs)))"

definition digit_value :: "char \<Rightarrow> int" where
  "digit_value c = int (of_char c) - 48"

definition digits_value :: "string \<Rightarrow> int" where
  "digits_value ds = foldl (\<lambda>acc c. 10 * acc + digit_value c) 0 ds"

definition py_int_digits :: "string \<Rightarrow> int option" where
  "py_int_digits ds =
     (if underscored_digits ds
      then Some (digits_value (filter (\<lambda>c. c \<noteq> CHR ''_'') ds))
      else None)"

definition py_int :: "string \<Rightarrow> int option" where
  "py_int s =
     (case py_strip s of
        [] \<Rightarrow> None
      | c # cs \<Rightarrow>
          if c = CHR ''-'' then map_option uminus (py_int_digits cs)
          else if c = CHR ''+'' then py_int_digits cs
          else py_int_digits (c # cs))"

text \<open>
  \<^verbatim>\<open>xs[start:stop]\<close>: a negative bound counts from the end, and both bounds are
  clipped to the list.
\<close>

definition py_slice :: "'a list \<Rightarrow> int \<Rightarrow> int \<Rightarrow> 'a list" where
  "py_slice xs start stop =
     (let n = int (length xs);
          clip = (\<lambda>i. if i < 0 then max 0 (i + n) else min i n);
          a = clip start;
          b = clip stop
      in take (nat (b - a)) (drop (nat a) xs))"

text \<open>The truth value of an optional string: \<^verbatim>\<open>None\<close> and \<^verbatim>\<open>''\<close> are false.\<close>

definition truthy :: "string option \<Rightarrow> bool" where
  "truthy v = (case v of None \<Rightarrow> False | Some s \<Rightarrow> s \<noteq> [])"

subsection \<open>Command-line options\<close>

text \<open>
  The keyword arguments that click passes to \<^verbatim>\<open>main\<close>, one field per option; an
  option without a default is \<^verbatim>\<open>None\<close> when it is not given on the command line.
\<close>

record kwargs =
  kw_chain :: string
  kw_owner :: "string option"
  kw_supply :: int
  kw_price_factor :: int
  kw_price_constant :: int
  kw_price_points :: "string option"
  kw_prealloc_addresses :: "string option"
  kw_prealloc_amounts :: "string option"
  kw_simulation :: bool
  kw_bidders :: int
  kw_bids :: int
  kw_bid_price :: int
  kw_bid_interval :: int

definition default_kwargs :: kwargs where
  "default_kwargs =
     \<lparr>kw_chain = ''kovan'', kw_owner = None, kw_supply = 10000000,
      kw_price_factor = 6, kw_price_constant = 66, kw_price_points = None,
      kw_prealloc_addresses = None, kw_prealloc_amounts = None,
      kw_simulation = False, kw_bidders = 10, kw_bids = 10,
      kw_bid_price = 50000000000000000, kw_bid_interval = 5\<rparr>"

subsection \<open>The world outside the script\<close>

datatype contract = DutchAuction | ReserveToken

record receipt =
  contractAddress :: string

text \<open>
  What \<^verbatim>\<open>main\<close> calls but does not define is a parameter of the model: the functions
  imported from the modules \<^verbatim>\<open>utils\<close> and \<^verbatim>\<open>simulation\<close>, and the chain that
  \<^verbatim>\<open>project.get_chain(chain_name)\<close> connects to. A call that raises returns \<open>Inl\<close>.
  \<^item> \<open>web3_eth_accounts\<close>: the list \<^verbatim>\<open>web3.eth.accounts\<close>;
  \<^item> \<open>web3_personal_newAccount i\<close>: the address returned by the \<open>i\<close>-th call of
    \<^verbatim>\<open>web3.personal.newAccount('0')\<close>;
  \<^item> \<open>utils_createWallet i\<close>: the pair \<^verbatim>\<open>(priv_key, address)\<close> returned by the
    \<open>i\<close>-th call of \<^verbatim>\<open>createWallet()\<close>;
  \<^item> \<open>utils_check_succesful_tx txhash\<close>: the receipt returned by
    \<^verbatim>\<open>check_succesful_tx(web3, txhash)\<close>;
  \<^item> \<open>simulation_getAuctionFactors\<close>: the imported solver;
  \<^item> \<open>simulation_auction_simulation\<close>: the imported simulation, called with the token
    address, the auction address, the owner, the bidder addresses, the number of bids,
    the bid interval and the start price;
  \<^item> \<open>factory_deploy c owner args\<close>: the transaction hash returned by
    \<^verbatim>\<open>C.deploy(transaction={"from": owner}, args=args)\<close> for the factory of contract
    \<open>c\<close>;
  \<^item> \<open>auction_setup auction_address owner token_address\<close>: the transaction hash
    returned by \<^verbatim>\<open>auction.transact({"from": owner}).setup(token_address)\<close>.
\<close>

record env =
  web3_eth_accounts :: "string list"
  web3_personal_newAccount :: "nat \<Rightarrow> string"
  utils_createWallet :: "nat \<Rightarrow> string \<times> string"
  utils_check_succesful_tx :: "string \<Rightarrow> error + receipt"
  simulation_getAuctionFactors :: "int \<Rightarrow> int \<Rightarrow> int \<Rightarrow> int \<Rightarrow> int \<Rightarrow> error + int \<times> int"
  simulation_auction_simulation ::
    "string \<Rightarrow> string \<Rightarrow> string \<Rightarrow> string list \<Rightarrow> int \<Rightarrow> int \<Rightarrow> int \<Rightarrow> error + unit"
  factory_deploy :: "contract \<Rightarrow> string \<Rightarrow> pyval list \<Rightarrow> error + string"
  auction_setup :: "string \<Rightarrow> string \<Rightarrow> string \<Rightarrow> error + string"

subsection \<open>Runs\<close>

text \<open>
  A run of \<^verbatim>\<open>main\<close> is observed through the calls that reach the chain, in the order
  in which they are made:
  \<^item> \<open>Deploy c owner args\<close>: the deployment transaction of contract \<open>c\<close> is handed to
    the chain;
  \<^item> \<open>Confirmed txhash receipt\<close>: \<^verbatim>\<open>check_succesful_tx\<close> returned the receipt of
    \<open>txhash\<close>;
  \<^item> \<open>Setup auction_address owner token_address\<close>: the \<^verbatim>\<open>setup\<close> transaction is
    handed to the chain;
  \<^item> \<open>NewAccount address\<close>: a bidder account was created;
  \<^item> \<open>Simulation \<dots>\<close>: \<^verbatim>\<open>auction_simulation\<close> is called.
  Printing and the read-only calls made for printing (lines 173 and 174) are left out.
  An action yields the events it caused and either the exception it raised or its value.
\<close>

datatype event =
    Deploy contract string "pyval list"
  | Confirmed string receipt
  | Setup string string string
  | NewAccount string
  | Simulation string string string "string list" int int int

type_synonym 'a action = "event list \<times> (error + 'a)"

definition returns :: "'a \<Rightarrow> 'a action" where
  "returns x = ([], Inr x)"

definition raise :: "error \<Rightarrow> 'a action" where
  "raise e = ([], Inl e)"

definition emit :: "event \<Rightarrow> unit action" where
  "emit ev = ([ev], Inr ())"

definition lift :: "error + 'a \<Rightarrow> 'a action" where
  "lift r = ([], r)"

text \<open>
  Sequencing: the second action runs only when the first one returned, and an exception
  ends the run with the events caused so far.
\<close>

definition bind_action :: "'a action \<Rightarrow> ('a \<Rightarrow> 'b action) \<Rightarrow> 'b action" where
  "bind_action m f =
     (case m of
        (tr, Inl e) \<Rightarrow> (tr, Inl e)
      | (tr, Inr x) \<Rightarrow> (case f x of (tr', r) \<Rightarrow> (tr @ tr', r)))"

definition deploy :: "env \<Rightarrow> contract \<Rightarrow> string \<Rightarrow> pyval list \<Rightarrow> string action" where
  "deploy env c owner args =
     bind_action (emit (Deploy c owner args)) (\<lambda>_. lift (factory_deploy env c owner args))"

definition check_succesful_tx :: "env \<Rightarrow> string \<Rightarrow> receipt action" where
  "check_succesful_tx env txhash =
     bind_action (lift (utils_check_succesful_tx env txhash)) (\<lambda>receipt.
     bind_action (emit (Confirmed txhash receipt)) (\<lambda>_.
     returns receipt))"

definition transact_setup :: "env \<Rightarrow> string \<Rightarrow> string \<Rightarrow> string \<Rightarrow> string action" where
  "transact_setup env auction_address owner token_address =
     bind_action (emit (Setup auction_address owner token_address)) (\<lambda>_.
     lift (auction_setup env auction_address owner token_address))"

subsection \<open>The steps of \<^verbatim>\<open>main\<close>\<close>

text \<open>
  Lines 87 to 100. The arguments of the solver are evaluated from left to right:
  \<^verbatim>\<open>price_points[i]\<close> raises \<^verbatim>\<open>IndexError\<close> when there is no such field and
  \<^verbatim>\<open>int\<close> raises \<^verbatim>\<open>ValueError\<close> when the field is not an integer.
\<close>

definition price_point :: "string list \<Rightarrow> nat \<Rightarrow> error + int" where
  "price_point parts i =
     (if i < length parts
      then (case py_int (parts ! i) of None \<Rightarrow> Inl ValueError | Some n \<Rightarrow> Inr n)
      else Inl IndexError)"

definition price_parameters :: "env \<Rightarrow> kwargs \<Rightarrow> error + int \<times> int" where
  "price_parameters env kwargs =
     (if truthy (kw_price_points kwargs) then
        let price_points = split_comma (the (kw_price_points kwargs)) in
        (case price_point price_points 0 of Inl e \<Rightarrow> Inl e | Inr p1 \<Rightarrow>
        (case price_point price_points 1 of Inl e \<Rightarrow> Inl e | Inr t1 \<Rightarrow>
        (case price_point price_points 2 of Inl e \<Rightarrow> Inl e | Inr p2 \<Rightarrow>
        (case price_point price_points 3 of Inl e \<Rightarrow> Inl e | Inr t2 \<Rightarrow>
           simulation_getAuctionFactors env p1 t1 p2 t2 multiplier))))
      else Inr (kw_price_factor kwargs, kw_price_constant kwargs))"

text \<open>Line 106: \<^verbatim>\<open>owner = owner or web3.eth.accounts[0]\<close>.\<close>

definition owner_of :: "env \<Rightarrow> kwargs \<Rightarrow> error + string" where
  "owner_of env kwargs =
     (if truthy (kw_owner kwargs) then Inr (the (kw_owner kwargs))
      else (case web3_eth_accounts env of [] \<Rightarrow> Inl IndexError | a # _ \<Rightarrow> Inr a))"

text \<open>Lines 109 to 124; the private keys are only printed.\<close>

definition prealloc_addresses_of :: "env \<Rightarrow> kwargs \<Rightarrow> string list" where
  "prealloc_addresses_of env kwargs =
     (if truthy (kw_prealloc_addresses kwargs)
      then split_comma (the (kw_prealloc_addresses kwargs))
      else if 2 \<le> length (web3_eth_accounts env)
      then py_slice (web3_eth_accounts env) 1 3
      else map (\<lambda>i. ''0x'' @ snd (utils_createWallet env i)) [0..<2])"

text \<open>Lines 126 to 132.\<close>

definition prealloc_amounts_of :: "kwargs \<Rightarrow> pyval list" where
  "prealloc_amounts_of kwargs =
     (if truthy (kw_prealloc_amounts kwargs)
      then map PStr (split_comma (the (kw_prealloc_amounts kwargs)))
      else [PInt (200000 * multiplier), PInt (800000 * multiplier)])"

text \<open>Lines 145 to 150: the auction is deployed and its receipt awaited.\<close>

definition deploy_auction :: "env \<Rightarrow> string \<Rightarrow> int \<Rightarrow> int \<Rightarrow> string action" where
  "deploy_auction env owner price_factor price_constant =
     bind_action (deploy env DutchAuction owner [PInt price_factor, PInt price_constant])
       (\<lambda>txhash.
     bind_action (check_succesful_tx env txhash) (\<lambda>receipt.
     returns (contractAddress receipt)))"

text \<open>Lines 152 to 162: the token is deployed and its receipt awaited.\<close>

definition deploy_token ::
  "env \<Rightarrow> string \<Rightarrow> string \<Rightarrow> int \<Rightarrow> string list \<Rightarrow> pyval list \<Rightarrow> string action" where
  "deploy_token env owner auction_address supply prealloc_addresses prealloc_amounts =
     bind_action (deploy env ReserveToken owner
                    [PStr auction_address, PInt supply,
                     PList (map PStr prealloc_addresses), PList prealloc_amounts])
       (\<lambda>txhash.
     bind_action (check_succesful_tx env txhash) (\<lambda>receipt.
     returns (contractAddress receipt)))"

text \<open>Lines 164 to 170: the auction is told the address of the token.\<close>

definition initialize_contracts :: "env \<Rightarrow> string \<Rightarrow> string \<Rightarrow> string \<Rightarrow> unit action" where
  "initialize_contracts env owner auction_address token_address =
     bind_action (transact_setup env auction_address owner token_address) (\<lambda>txhash.
     bind_action (check_succesful_tx env txhash) (\<lambda>_.
     returns ()))"

text \<open>
  Lines 177 to 188: the accounts from the fourth on are the bidders, new accounts are
  created until there are \<^verbatim>\<open>bidders\<close> of them, and the simulation starts.
\<close>

definition start_simulation ::
  "env \<Rightarrow> kwargs \<Rightarrow> string \<Rightarrow> string \<Rightarrow> string \<Rightarrow> unit action" where
  "start_simulation env kwargs owner auction_address token_address =
     (let bidders = kw_bidders kwargs;
          bid_start_price = kw_bid_price kwargs;
          bid_interval = kw_bid_interval kwargs;
          bids_number = kw_bids kwargs;
          bidder_addresses = py_slice (web3_eth_accounts env) 3 (bidders + 3);
          created = map (web3_personal_newAccount env)
                      [0..<nat (bidders - int (length bidder_addresses))];
          bidder_addresses = bidder_addresses @ created
      in (map NewAccount created
            @ [Simulation token_address auction_address owner bidder_addresses
                 bids_number bid_interval bid_start_price],
          simulation_auction_simulation env token_address auction_address owner
            bidder_addresses bids_number bid_interval bid_start_price))"

subsection \<open>\<^verbatim>\<open>main\<close>\<close>

definition main :: "env \<Rightarrow> kwargs \<Rightarrow> unit action" where
  "main env kwargs =
     (let supply = kw_supply kwargs * multiplier in
      bind_action (lift (price_parameters env kwargs)) (\<lambda>(price_factor, price_constant).
      bind_action (lift (owner_of env kwargs)) (\<lambda>owner.
      let prealloc_addresses = prealloc_addresses_of env kwargs;
          prealloc_amounts = prealloc_amounts_of kwargs
      in
      bind_action (if owner \<noteq> [] then returns () else raise AssertionError) (\<lambda>_.
      bind_action (deploy_auction env owner price_factor price_constant)
        (\<lambda>auction_address.
      bind_action (deploy_token env owner auction_address supply prealloc_addresses
                     prealloc_amounts)
        (\<lambda>token_address.
      bind_action (initialize_contracts env owner auction_address token_address) (\<lambda>_.
      if kw_simulation kwargs
      then start_simulation env kwargs owner auction_address token_address
      else returns ())))))))"

subsection \<open>Observations on runs\<close>

text \<open>
  The constructor arguments of the deployments of one contract, in the order of the
  run.
\<close>

fun deployed_with :: "contract \<Rightarrow> event \<Rightarrow> pyval list option" where
  "deployed_with c (Deploy c' owner args) = (if c = c' then Some args else None)"
| "deployed_with c _ = None"

definition deployments :: "contract \<Rightarrow> event list \<Rightarrow> pyval list list" where
  "deployments c tr = List.map_filter (deployed_with c) tr"

fun is_deploy :: "event \<Rightarrow> bool" where
  "is_deploy (Deploy c owner args) = True"
| "is_deploy _ = False"

text \<open>The constructor arguments that \<^verbatim>\<open>main\<close> gives to the token deployment.\<close>

definition token_args :: "env \<Rightarrow> kwargs \<Rightarrow> string \<Rightarrow> pyval list" where
  "token_args env kwargs auction_address =
     [PStr auction_address, PInt (kw_supply kwargs * multiplier),
      PList (map PStr (prealloc_addresses_of env kwargs)),
      PList (prealloc_amounts_of kwargs)]"

text \<open>
  A chain for the examples: two accounts, every transaction is accepted and confirmed,
  the solver is the one of the specification.
\<close>

definition example_env :: env where
  "example_env =
     \<lparr>web3_eth_accounts = [''0xa0'', ''0xa1''],
      web3_personal_newAccount = (\<lambda>i. ''0xb'' @ replicate i CHR ''1''),
      utils_createWallet = (\<lambda>i. (''key'' @ replicate i CHR ''1'', ''w'' @ replicate i CHR ''1'')),
      utils_check_succesful_tx = (\<lambda>txhash. Inr \<lparr>contractAddress = ''0xc'' @ txhash\<rparr>),
      simulation_getAuctionFactors = getAuctionFactors,
      simulation_auction_simulation = (\<lambda>token auction owner bidder_addresses n i p. Inr ()),
      factory_deploy =
        (\<lambda>c owner args. Inr (case c of DutchAuction \<Rightarrow> ''tx1'' | ReserveToken \<Rightarrow> ''tx2'')),
      auction_setup = (\<lambda>auction_address owner token_address. Inr ''tx3'')\<rparr>"

text \<open>The same chain, except that the deployment of the token is refused.\<close>

definition token_refusing_env :: env where
  "token_refusing_env =
     example_env\<lparr>factory_deploy :=
       (\<lambda>c owner args. case c of DutchAuction \<Rightarrow> Inr ''tx1'' | ReserveToken \<Rightarrow> Inl DeploymentError)\<rparr>"

section \<open>The bid simulation scheduler\<close>

text \<open>
  Modelled from the spec: \<^verbatim>\<open>auction_simulation\<close> is imported from the module
  \<^verbatim>\<open>simulation\<close>, which is not among the sources; only its call in line 188 is. The
  definitions follow section 4.3 of the specification (the state machine and the five
  steps of an iteration) and section 6 (the chain gateway).
\<close>

datatype AuctionRunState = NotStarted | Running | Completed | Aborted

record Bid =
  bidder :: string
  observedPrice :: int
  sequenceIndex :: nat

text \<open>
  The chain gateway as the scheduler meets it. The scheduler is the only writer during a
  run and every call blocks, so the answers of the chain are given by the sequence index
  of the bid they belong to:
  \<^item> \<open>auction_ended k\<close>: the auction reports its terminal condition before bid \<open>k\<close>;
  \<^item> \<open>current_price k\<close>: the price read for bid \<open>k\<close>;
  \<^item> \<open>transact k bidder price\<close>: the transaction handle of bid \<open>k\<close>, or the rejection;
  \<^item> \<open>awaitReceipt k tx\<close>: the confirmation of bid \<open>k\<close>, or the failure (a timeout is
    \<open>ConfirmationTimeoutError\<close>).
\<close>

record gateway =
  auction_ended :: "nat \<Rightarrow> bool"
  current_price :: "nat \<Rightarrow> int"
  transact :: "nat \<Rightarrow> string \<Rightarrow> int \<Rightarrow> error + string"
  awaitReceipt :: "nat \<Rightarrow> string \<Rightarrow> error + unit"

text \<open>
  What the scheduler does on the chain, in order: a price query, a bid transaction
  accepted by the chain, the confirmation of a bid, and the pause between two
  iterations.
\<close>

datatype sched_event =
    PriceRead nat int
  | BidSubmitted nat string int
  | BidConfirmed nat
  | Slept int

record scheduler =
  run_state :: AuctionRunState
  recorded :: "Bid list"
  journal :: "sched_event list"
  failure :: "error option"

definition initial_scheduler :: scheduler where
  "initial_scheduler = \<lparr>run_state = NotStarted, recorded = [], journal = [], failure = None\<rparr>"

text \<open>
  Step 2: the next bidder in sequence order, round-robin when there are fewer bidders
  than bids. The specification is silent on an empty bidder sequence; no bid can be
  issued then, and the model aborts the run.
\<close>

definition next_bidder :: "string list \<Rightarrow> nat \<Rightarrow> string option" where
  "next_bidder bidders k =
     (if bidders = [] then None else Some (bidders ! (k mod length bidders)))"

text \<open>\<open>Running -> Aborted\<close>: the failure is kept, nothing is recorded.\<close>

definition abort :: "error \<Rightarrow> sched_event list \<Rightarrow> scheduler \<Rightarrow> scheduler" where
  "abort e evs s = s\<lparr>run_state := Aborted, journal := journal s @ evs, failure := Some e\<rparr>"

text \<open>
  One iteration, for the bid with sequence index \<open>k\<close>: after the pause, the auction may
  have ended (\<open>Running -> Completed\<close>); otherwise the price is read, the bidder
  selected, the bid submitted at that price, its confirmation awaited, and the bid
  recorded.
\<close>

definition bid_step :: "gateway \<Rightarrow> string list \<Rightarrow> int \<Rightarrow> nat \<Rightarrow> scheduler \<Rightarrow> scheduler" where
  "bid_step gw bidders interval k s =
     (let pause = (if 0 < k then [Slept interval] else []) in
      if auction_ended gw k
      then s\<lparr>run_state := Completed, journal := journal s @ pause\<rparr>
      else
        let p = current_price gw k;
            evs = pause @ [PriceRead k p]
        in case next_bidder bidders k of
             None \<Rightarrow> abort IndexError evs s
           | Some b \<Rightarrow>
               (case transact gw k b p of
                  Inl e \<Rightarrow> abort e evs s
                | Inr tx \<Rightarrow>
                    (case awaitReceipt gw k tx of
                       Inl e \<Rightarrow> abort e (evs @ [BidSubmitted k b p]) s
                     | Inr _ \<Rightarrow>
                         s\<lparr>recorded := recorded s
                              @ [\<lparr>bidder = b, observedPrice = p, sequenceIndex = k\<rparr>],
                           journal := journal s @ evs
                              @ [BidSubmitted k b p, BidConfirmed k]\<rparr>)))"

text \<open>The loop: at most \<open>n\<close> more iterations, and none once the run is not \<open>Running\<close>.\<close>

fun run_bids ::
  "gateway \<Rightarrow> string list \<Rightarrow> int \<Rightarrow> nat \<Rightarrow> nat \<Rightarrow> scheduler \<Rightarrow> scheduler" where
  "run_bids gw bidders interval k 0 s = s"
| "run_bids gw bidders interval k (Suc n) s =
     (if run_state s = Running
      then run_bids gw bidders interval (Suc k) n (bid_step gw bidders interval k s)
      else s)"

text \<open>
  The simulate request starts the run (\<open>NotStarted -> Running\<close>); when all scheduled
  bids are submitted and confirmed the run is \<open>Completed\<close>. The starting bid price is
  part of the request, but no step of section 4.3 reads it: a bid is made at the
  observed price.
\<close>

definition auction_simulation ::
  "gateway \<Rightarrow> string list \<Rightarrow> int \<Rightarrow> int \<Rightarrow> int \<Rightarrow> scheduler" where
  "auction_simulation gw bidder_addresses bids_number bid_interval bid_start_price =
     (let s = run_bids gw bidder_addresses bid_interval 0 (nat bids_number)
                (initial_scheduler\<lparr>run_state := Running\<rparr>)
      in if run_state s = Running then s\<lparr>run_state := Completed\<rparr> else s)"

subsection \<open>Observations on journals\<close>

text \<open>
  A journal is sequential when it is accepted by the following reader, which keeps the
  bid in flight (submitted, not yet confirmed) and the sequence index of the next bid: a
  bid is submitted only when none is in flight and with the next index; a confirmation
  is the confirmation of the bid in flight. The reader returns its state after the
  journal, or \<open>None\<close> when the journal is not sequential.
\<close>

fun read_event :: "nat option \<times> nat \<Rightarrow> sched_event \<Rightarrow> (nat option \<times> nat) option" where
  "read_event (pending, nxt) (BidSubmitted k b p) =
     (if pending = None \<and> k = nxt then Some (Some k, Suc nxt) else None)"
| "read_event (pending, nxt) (BidConfirmed k) =
     (if pending = Some k then Some (None, nxt) else None)"
| "read_event st _ = Some st"

fun read_journal :: "nat option \<times> nat \<Rightarrow> sched_event list \<Rightarrow> (nat option \<times> nat) option" where
  "read_journal st [] = Some st"
| "read_journal st (ev # evs) =
     (case read_event st ev of None \<Rightarrow> None | Some st' \<Rightarrow> read_journal st' evs)"

definition sequential :: "sched_event list \<Rightarrow> bool" where
  "sequential evs \<longleftrightarrow> read_journal (None, 0) evs \<noteq> None"

text \<open>The number of bids in flight after a journal.\<close>

fun in_flight :: "sched_event list \<Rightarrow> int" where
  "in_flight [] = 0"
| "in_flight (BidSubmitted k b p # evs) = in_flight evs + 1"
| "in_flight (BidConfirmed k # evs) = in_flight evs - 1"
| "in_flight (_ # evs) = in_flight evs"

fun submitted_index :: "sched_event \<Rightarrow> nat option" where
  "submitted_index (BidSubmitted k b p) = Some k"
| "submitted_index _ = None"

fun confirmed_index :: "sched_event \<Rightarrow> nat option" where
  "confirmed_index (BidConfirmed k) = Some k"
| "confirmed_index _ = None"

text \<open>The bid that a run records for index \<open>k\<close> when nothing fails.\<close>

definition bid_at :: "gateway \<Rightarrow> string list \<Rightarrow> nat \<Rightarrow> Bid" where
  "bid_at gw bidders k =
     \<lparr>bidder = bidders ! (k mod length bidders), observedPrice = current_price gw k,
      sequenceIndex = k\<rparr>"

text \<open>Bid \<open>k\<close> goes through: the auction has not ended, the bid is accepted and confirmed.\<close>

definition bid_confirmed :: "gateway \<Rightarrow> string list \<Rightarrow> nat \<Rightarrow> bool" where
  "bid_confirmed gw bidders k \<longleftrightarrow>
     \<not> auction_ended gw k \<and>
     (case transact gw k (bidders ! (k mod length bidders)) (current_price gw k) of
        Inl e \<Rightarrow> False
      | Inr tx \<Rightarrow> awaitReceipt gw k tx = Inr ())"

text \<open>
  Bid \<open>k\<close> fails with \<open>e\<close>: the auction has not ended, and the bid is rejected, or its
  confirmation fails or times out.
\<close>

definition bid_fails :: "gateway \<Rightarrow> string list \<Rightarrow> nat \<Rightarrow> error \<Rightarrow> bool" where
  "bid_fails gw bidders k e \<longleftrightarrow>
     \<not> auction_ended gw k \<and>
     (case transact gw k (bidders ! (k mod length bidders)) (current_price gw k) of
        Inl e' \<Rightarrow> e' = e
      | Inr tx \<Rightarrow> awaitReceipt gw k tx = Inl e)"

text \<open>
  A gateway for the examples: the price falls with the index, every bid is accepted,
  and the confirmation of the fourth bid (index \<open>3\<close>) times out.
\<close>

definition fourth_times_out :: gateway where
  "fourth_times_out =
     \<lparr>auction_ended = (\<lambda>k. False),
      current_price = (\<lambda>k. 1000 - int k),
      transact = (\<lambda>k b p. Inr (''tx'' @ replicate k CHR ''1'')),
      awaitReceipt = (\<lambda>k tx. if k = 3 then Inl ConfirmationTimeoutError else Inr ())\<rparr>"

text \<open>
  The invariant of the loop before the iteration for index \<open>k\<close>, and the state in which
  the loop is left when that iteration ends the run.
\<close>

definition running_at :: "gateway \<Rightarrow> string list \<Rightarrow> nat \<Rightarrow> scheduler \<Rightarrow> bool" where
  "running_at gw bidders k s \<longleftrightarrow>
     run_state s = Running \<and> failure s = None
     \<and> read_journal (None, 0) (journal s) = Some (None, k)
     \<and> recorded s = map (bid_at gw bidders) [0..<k]
     \<and> List.map_filter submitted_index (journal s) = [0..<k]
     \<and> List.map_filter confirmed_index (journal s) = [0..<k]"

definition stopped_at :: "gateway \<Rightarrow> string list \<Rightarrow> nat \<Rightarrow> scheduler \<Rightarrow> bool" where
  "stopped_at gw bidders k s \<longleftrightarrow>
     (run_state s = Completed \<and> failure s = None \<or> run_state s = Aborted \<and> failure s \<noteq> None)
     \<and> read_journal (None, 0) (journal s) \<noteq> None
     \<and> recorded s = map (bid_at gw bidders) [0..<k]
     \<and> List.map_filter submitted_index (journal s) \<in> {[0..<k], [0..<Suc k]}
     \<and> List.map_filter confirmed_index (journal s) = [0..<k]"
section \<open>Properties\<close>

subsection \<open>The price function\<close>

lemma price_at_antimono:
  assumes "0 \<le> factor * scale" and "0 < constant + e1" and "e1 \<le> e2"
  shows "price_at scale e2 factor constant \<le> price_at scale e1 factor constant"
  unfolding price_at_def using assms by (intro zdiv_mono2) simp_all

lemma multiplier_pos: "0 < multiplier"
  by (simp add: multiplier_def)

text \<open>
  C2. For a positive factor and a positive constant, the price does not increase as the
  elapsed time grows: for \<open>0 \<le> e1 \<le> e2\<close>, the price at \<open>e2\<close> is at most the price at
  \<open>e1\<close>.
\<close>

theorem price_non_increasing:
  assumes "0 < factor" and "0 < constant" and "0 \<le> e1" and "e1 \<le> e2"
  shows "price e2 factor constant \<le> price e1 factor constant"
proof -
  from assms(1) multiplier_pos have "0 \<le> factor * multiplier"
    by simp
  moreover from assms(2,3) have "0 < constant + e1"
    by simp
  ultimately show ?thesis
    unfolding price_def using assms(4) by (rule price_at_antimono)
qed

theorem price_non_increasing_witness:
  "(0::int) < 6 \<and> (0::int) < 66 \<and> (0::int) \<le> 0 \<and> (0::int) \<le> 600
   \<and> price 600 6 66 \<le> price 0 6 66
   \<and> price 0 6 66 = 90909090909090909 \<and> price 600 6 66 = 9009009009009009"
  using price_non_increasing [of 6 66 0 600]
  by (simp add: price_def price_at_def multiplier_def)

subsection \<open>The solver\<close>

lemma getAuctionFactors_Inr_reproduces:
  assumes "getAuctionFactors p1 t1 p2 t2 scale = Inr (factor, constant)"
  shows "reproduces scale factor constant p1 t1 \<and> reproduces scale factor constant p2 t2"
  using assms unfolding getAuctionFactors_def
  by (auto simp: Let_def split: if_splits)

lemma getAuctionFactors_valid_cases:
  assumes "p1 \<noteq> p2" and "0 \<le> p1" and "0 \<le> t1" and "0 \<le> p2" and "0 \<le> t2"
  shows "getAuctionFactors p1 t1 p2 t2 scale = Inl UnsolvablePriceModel
         \<or> (\<exists>factor constant. getAuctionFactors p1 t1 p2 t2 scale = Inr (factor, constant))"
  using assms unfolding getAuctionFactors_def
  by (simp add: Let_def)

text \<open>
  C1. For two PricePoints (non-negative price and elapsed time) with different prices,
  the solver either reports \<open>UnsolvablePriceModel\<close> or returns a pair
  \<open>(factor, constant)\<close> for which \<open>floor(factor * scale / (constant + t))\<close> is defined
  and equals \<open>p1\<close> at \<open>t1\<close> and \<open>p2\<close> at \<open>t2\<close>. A returned pair always reproduces
  both samples.
\<close>

theorem getAuctionFactors_reproduces_or_reports:
  assumes "p1 \<noteq> p2" and "0 \<le> p1" and "0 \<le> t1" and "0 \<le> p2" and "0 \<le> t2"
  shows "getAuctionFactors p1 t1 p2 t2 scale = Inl UnsolvablePriceModel
         \<or> (\<exists>factor constant.
               getAuctionFactors p1 t1 p2 t2 scale = Inr (factor, constant)
               \<and> constant + t1 \<noteq> 0 \<and> constant + t2 \<noteq> 0
               \<and> price_at scale t1 factor constant = p1
               \<and> price_at scale t2 factor constant = p2)"
proof -
  from assms consider
      (report) "getAuctionFactors p1 t1 p2 t2 scale = Inl UnsolvablePriceModel"
    | (pair) f c
        where "getAuctionFactors p1 t1 p2 t2 scale = Inr (f, c)"
    using getAuctionFactors_valid_cases by blast
  then show ?thesis
  proof cases
    case report
    then show ?thesis by simp
  next
    case pair
    from getAuctionFactors_Inr_reproduces [OF pair] pair show ?thesis
      by (simp add: reproduces_def)
  qed
qed

theorem getAuctionFactors_reproduces_or_reports_witness:
  "getAuctionFactors 2000000000000000000 0 1000000000000000000 1 multiplier = Inr (2, 1)
   \<and> price_at multiplier 0 2 1 = 2000000000000000000
   \<and> price_at multiplier 1 2 1 = 1000000000000000000"
  using getAuctionFactors_reproduces_or_reports
          [of 2000000000000000000 1000000000000000000 0 1 multiplier]
  by (simp add: getAuctionFactors_def reproduces_def price_at_def multiplier_def)

text \<open>
  The sample of the option's help text, \<^verbatim>\<open>100000000000000000,0,10000000000000000,600\<close>,
  gives constant \<open>66\<close> and factor \<open>6\<close> (the defaults of the script); the price at
  \<open>0\<close> is then \<open>90909090909090909\<close>, so the report is \<open>UnsolvablePriceModel\<close>.
\<close>

lemma getAuctionFactors_help_text_sample:
  "getAuctionFactors 100000000000000000 0 10000000000000000 600 multiplier
     = Inl UnsolvablePriceModel"
  by (simp add: getAuctionFactors_def reproduces_def price_at_def multiplier_def)

text \<open>
  C3. Two PricePoints with the same price, at any two elapsed times, make the solver
  fail with \<open>DegenerateSampleError\<close>; a negative price or a negative elapsed time makes
  it fail with \<open>InvalidSampleError\<close>.
\<close>

theorem getAuctionFactors_rejects_bad_samples:
  "(0 \<le> p \<and> 0 \<le> t1 \<and> 0 \<le> t2
      \<longrightarrow> getAuctionFactors p t1 p t2 scale = Inl DegenerateSampleError)
   \<and> (q1 < 0 \<or> u1 < 0 \<or> q2 < 0 \<or> u2 < 0
      \<longrightarrow> getAuctionFactors q1 u1 q2 u2 scale = Inl InvalidSampleError)"
  unfolding getAuctionFactors_def by auto

theorem getAuctionFactors_rejects_bad_samples_witness:
  "getAuctionFactors 5 0 5 600 multiplier = Inl DegenerateSampleError
   \<and> getAuctionFactors 5 7 5 7 multiplier = Inl DegenerateSampleError
   \<and> getAuctionFactors 5 (- 1) 4 600 multiplier = Inl InvalidSampleError
   \<and> getAuctionFactors (- 5) 0 (- 5) 600 multiplier = Inl InvalidSampleError"
  using getAuctionFactors_rejects_bad_samples [of 5 0 600 multiplier 5 "- 1" 4 600]
        getAuctionFactors_rejects_bad_samples [of 5 7 7 multiplier "- 5" 0 "- 5" 600]
  by simp


subsection \<open>Runs of \<^verbatim>\<open>main\<close>\<close>

text \<open>Sequencing, and each step of the deployment, as equations on runs.\<close>

lemma bind_action_pair:
  "bind_action (tr, r) f =
     (case r of Inl e \<Rightarrow> (tr, Inl e) | Inr x \<Rightarrow> (tr @ fst (f x), snd (f x)))"
  by (simp add: bind_action_def split: prod.splits sum.splits)

lemma bind_action_simps [simp]:
  "bind_action (tr, Inl e) f = (tr, Inl e)"
  "bind_action (tr, Inr x) f = (tr @ fst (f x), snd (f x))"
  by (simp_all add: bind_action_pair)

lemma deploy_eq:
  "deploy env c owner args = ([Deploy c owner args], factory_deploy env c owner args)"
  by (simp add: deploy_def emit_def lift_def)

lemma check_succesful_tx_eq:
  "check_succesful_tx env txhash =
     (case utils_check_succesful_tx env txhash of
        Inl e \<Rightarrow> ([], Inl e)
      | Inr receipt \<Rightarrow> ([Confirmed txhash receipt], Inr receipt))"
  by (simp add: check_succesful_tx_def emit_def lift_def returns_def split: sum.splits)

lemma deploy_auction_eq:
  "deploy_auction env owner pf pc =
     (case factory_deploy env DutchAuction owner [PInt pf, PInt pc] of
        Inl e \<Rightarrow> ([Deploy DutchAuction owner [PInt pf, PInt pc]], Inl e)
      | Inr txhash \<Rightarrow>
          (case utils_check_succesful_tx env txhash of
             Inl e \<Rightarrow> ([Deploy DutchAuction owner [PInt pf, PInt pc]], Inl e)
           | Inr receipt \<Rightarrow>
               ([Deploy DutchAuction owner [PInt pf, PInt pc], Confirmed txhash receipt],
                Inr (contractAddress receipt))))"
  by (simp add: deploy_auction_def deploy_eq check_succesful_tx_eq returns_def
        bind_action_pair split: sum.splits)

lemma deploy_token_eq:
  "deploy_token env owner auction_address supply addrs amounts =
     (let args = [PStr auction_address, PInt supply, PList (map PStr addrs), PList amounts]
      in case factory_deploy env ReserveToken owner args of
        Inl e \<Rightarrow> ([Deploy ReserveToken owner args], Inl e)
      | Inr txhash \<Rightarrow>
          (case utils_check_succesful_tx env txhash of
             Inl e \<Rightarrow> ([Deploy ReserveToken owner args], Inl e)
           | Inr receipt \<Rightarrow>
               ([Deploy ReserveToken owner args, Confirmed txhash receipt],
                Inr (contractAddress receipt))))"
  by (simp add: deploy_token_def deploy_eq check_succesful_tx_eq returns_def
        bind_action_pair split: sum.splits)

lemma bind_action_events:
  assumes "ev \<in> set (fst (bind_action m f))"
  shows "ev \<in> set (fst m) \<or> (\<exists>x. ev \<in> set (fst (f x)))"
  using assms by (cases m) (auto simp: bind_action_pair split: sum.splits)

lemma initialize_contracts_no_deploy:
  "ev \<in> set (fst (initialize_contracts env owner a t)) \<Longrightarrow> \<not> is_deploy ev"
  by (auto simp: initialize_contracts_def transact_setup_def emit_def lift_def
        check_succesful_tx_eq returns_def bind_action_pair split: sum.splits)

lemma start_simulation_no_deploy:
  "ev \<in> set (fst (start_simulation env kwargs owner a t)) \<Longrightarrow> \<not> is_deploy ev"
  by (auto simp: start_simulation_def Let_def)

lemma after_deployment_no_deploy:
  assumes "ev \<in> set (fst (bind_action (initialize_contracts env owner a t)
             (\<lambda>_. if b then start_simulation env kwargs owner a t else returns ())))"
  shows "\<not> is_deploy ev"
  using bind_action_events [OF assms]
  by (auto simp: returns_def dest: initialize_contracts_no_deploy start_simulation_no_deploy
        split: if_splits)

text \<open>
  Every run of \<^verbatim>\<open>main\<close> has one of four shapes: it ends before anything reaches
  the chain; the auction deployment fails; the token deployment fails; or both contracts
  are deployed, and nothing that follows is a deployment.
\<close>

lemma main_cases [case_names not_deployed auction_failed token_failed deployed]:
  obtains
    (not_deployed) e where
      "\<nexists>pf pc owner. price_parameters env kwargs = Inr (pf, pc)
           \<and> owner_of env kwargs = Inr owner \<and> owner \<noteq> []"
      "main env kwargs = ([], Inl e)"
  | (auction_failed) owner pf pc e where
      "price_parameters env kwargs = Inr (pf, pc)"
      "owner_of env kwargs = Inr owner" "owner \<noteq> []"
      "main env kwargs = ([Deploy DutchAuction owner [PInt pf, PInt pc]], Inl e)"
  | (token_failed) owner pf pc txhash receipt e where
      "price_parameters env kwargs = Inr (pf, pc)"
      "owner_of env kwargs = Inr owner" "owner \<noteq> []"
      "factory_deploy env DutchAuction owner [PInt pf, PInt pc] = Inr txhash"
      "utils_check_succesful_tx env txhash = Inr receipt"
      "factory_deploy env ReserveToken owner
           (token_args env kwargs (contractAddress receipt)) = Inl e
       \<or> (\<exists>tx. factory_deploy env ReserveToken owner
                  (token_args env kwargs (contractAddress receipt)) = Inr tx
               \<and> utils_check_succesful_tx env tx = Inl e)"
      "main env kwargs =
         ([Deploy DutchAuction owner [PInt pf, PInt pc], Confirmed txhash receipt,
           Deploy ReserveToken owner (token_args env kwargs (contractAddress receipt))],
          Inl e)"
  | (deployed) owner pf pc txhash receipt txhash' receipt' rest res where
      "price_parameters env kwargs = Inr (pf, pc)"
      "owner_of env kwargs = Inr owner" "owner \<noteq> []"
      "factory_deploy env DutchAuction owner [PInt pf, PInt pc] = Inr txhash"
      "utils_check_succesful_tx env txhash = Inr receipt"
      "factory_deploy env ReserveToken owner
           (token_args env kwargs (contractAddress receipt)) = Inr txhash'"
      "utils_check_succesful_tx env txhash' = Inr receipt'"
      "\<forall>ev \<in> set rest. \<not> is_deploy ev"
      "main env kwargs =
         (Deploy DutchAuction owner [PInt pf, PInt pc] # Confirmed txhash receipt
            # Deploy ReserveToken owner (token_args env kwargs (contractAddress receipt))
            # Confirmed txhash' receipt' # rest,
          res)"
proof (cases "price_parameters env kwargs")
  case (Inl e)
  then have "main env kwargs = ([], Inl e)"
    by (simp add: main_def lift_def)
  with Inl show ?thesis by (intro not_deployed) simp_all
next
  case (Inr pp)
  obtain pf pc where pp: "pp = (pf, pc)" by (cases pp)
  show ?thesis
  proof (cases "owner_of env kwargs")
    case (Inl e)
    with Inr pp have "main env kwargs = ([], Inl e)"
      by (simp add: main_def lift_def)
    with Inl show ?thesis by (intro not_deployed) simp_all
  next
    case owner: (Inr owner)
    show ?thesis
    proof (cases "owner = []")
      case True
      with Inr pp owner have "main env kwargs = ([], Inl AssertionError)"
        by (simp add: main_def lift_def raise_def)
      with owner True show ?thesis by (intro not_deployed) simp_all
    next
      case False
      let ?d1 = "Deploy DutchAuction owner [PInt pf, PInt pc]"
      have m: "main env kwargs =
        bind_action (deploy_auction env owner pf pc) (\<lambda>auction_address.
        bind_action (deploy_token env owner auction_address (kw_supply kwargs * multiplier)
            (prealloc_addresses_of env kwargs) (prealloc_amounts_of kwargs))
          (\<lambda>token_address.
        bind_action (initialize_contracts env owner auction_address token_address) (\<lambda>_.
          if kw_simulation kwargs
          then start_simulation env kwargs owner auction_address token_address
          else returns ())))"
        using Inr pp owner False by (simp add: main_def lift_def returns_def Let_def)
      show ?thesis
      proof (cases "factory_deploy env DutchAuction owner [PInt pf, PInt pc]")
        case (Inl e)
        then have "main env kwargs = ([?d1], Inl e)"
          by (simp add: m deploy_auction_eq)
        with Inr pp owner False show ?thesis by (intro auction_failed) simp_all
      next
        case tx: (Inr txhash)
        show ?thesis
        proof (cases "utils_check_succesful_tx env txhash")
          case (Inl e)
          with tx have "main env kwargs = ([?d1], Inl e)"
            by (simp add: m deploy_auction_eq)
          with Inr pp owner False show ?thesis by (intro auction_failed) simp_all
        next
          case r: (Inr receipt)
          let ?args = "token_args env kwargs (contractAddress receipt)"
          let ?d2 = "Deploy ReserveToken owner ?args"
          show ?thesis
          proof (cases "factory_deploy env ReserveToken owner ?args")
            case (Inl e)
            with tx r have "main env kwargs = ([?d1, Confirmed txhash receipt, ?d2], Inl e)"
              by (simp add: m deploy_auction_eq deploy_token_eq token_args_def)
            with Inr pp owner False tx r Inl show ?thesis
              by (intro token_failed) simp_all
          next
            case tx': (Inr txhash')
            show ?thesis
            proof (cases "utils_check_succesful_tx env txhash'")
              case (Inl e)
              with tx r tx'
              have "main env kwargs = ([?d1, Confirmed txhash receipt, ?d2], Inl e)"
                by (simp add: m deploy_auction_eq deploy_token_eq token_args_def)
              with Inr pp owner False tx r tx' Inl show ?thesis
                by (intro token_failed) simp_all
            next
              case r': (Inr receipt')
              define tail where "tail =
                bind_action (initialize_contracts env owner (contractAddress receipt)
                               (contractAddress receipt'))
                  (\<lambda>_. if kw_simulation kwargs
                       then start_simulation env kwargs owner (contractAddress receipt)
                              (contractAddress receipt')
                       else returns ())"
              have nd: "\<forall>ev \<in> set (fst tail). \<not> is_deploy ev"
                unfolding tail_def using after_deployment_no_deploy by blast
              have "main env kwargs =
                (?d1 # Confirmed txhash receipt # ?d2 # Confirmed txhash' receipt' # fst tail,
                 snd tail)"
                using tx r tx' r'
                by (simp add: m deploy_auction_eq deploy_token_eq token_args_def tail_def)
              with Inr pp owner False tx r tx' r' nd show ?thesis
                by (intro deployed) simp_all
            qed
          qed
        qed
      qed
    qed
  qed
qed

lemma deployments_simps [simp]:
  "deployments c [] = []"
  "deployments c (Deploy c' owner args # tr) =
     (if c = c' then args # deployments c tr else deployments c tr)"
  "deployments c (Confirmed txhash receipt # tr) = deployments c tr"
  "deployments c (Setup auction_address owner token_address # tr) = deployments c tr"
  "deployments c (NewAccount address # tr) = deployments c tr"
  "deployments c (Simulation token auction owner bidder_addresses n i p # tr) = deployments c tr"
  by (simp_all add: deployments_def List.map_filter_simps)

lemma deployments_no_deploy:
  "\<forall>ev \<in> set tr. \<not> is_deploy ev \<Longrightarrow> deployments c tr = []"
proof (induction tr)
  case Nil
  then show ?case by simp
next
  case (Cons ev tr)
  then show ?case
    by (cases ev) (simp_all add: deployments_def List.map_filter_simps)
qed

lemma auction_deployments_main:
  "deployments DutchAuction (fst (main env kwargs)) =
     (case price_parameters env kwargs of
        Inl e \<Rightarrow> []
      | Inr (pf, pc) \<Rightarrow>
          (case owner_of env kwargs of
             Inl e \<Rightarrow> []
           | Inr owner \<Rightarrow> if owner = [] then [] else [[PInt pf, PInt pc]]))"
proof (cases env kwargs rule: main_cases)
  case (not_deployed e)
  then show ?thesis
    by (auto split: sum.splits)
next
  case (auction_failed owner pf pc e)
  then show ?thesis by simp
next
  case (token_failed owner pf pc txhash receipt e)
  then show ?thesis by simp
next
  case (deployed owner pf pc txhash receipt txhash' receipt' rest res)
  then show ?thesis by (simp add: deployments_no_deploy)
qed

lemma token_deployments_main:
  "deployments ReserveToken (fst (main env kwargs)) = []
   \<or> (\<exists>auction_address.
         deployments ReserveToken (fst (main env kwargs))
           = [token_args env kwargs auction_address])"
  by (cases env kwargs rule: main_cases) (auto simp: deployments_no_deploy)

text \<open>
  C5. Whenever a run hands the token deployment to the chain, exactly two events come
  before it: the auction deployment, which returned a transaction hash, and the
  confirmation of that hash by \<^verbatim>\<open>check_succesful_tx\<close>. If the token deployment then
  fails (the deployment call raises, or its receipt is not confirmed), the run ends
  there with that exception: no further transaction is sent, so the auction stays
  deployed and nothing is rolled back.
\<close>

theorem token_deployment_follows_confirmed_auction:
  assumes "fst (main env kwargs) = pre @ Deploy ReserveToken owner args # post"
  shows "\<exists>pf pc txhash receipt.
           pre = [Deploy DutchAuction owner [PInt pf, PInt pc], Confirmed txhash receipt]
         \<and> factory_deploy env DutchAuction owner [PInt pf, PInt pc] = Inr txhash
         \<and> utils_check_succesful_tx env txhash = Inr receipt
         \<and> (\<forall>e. factory_deploy env ReserveToken owner args = Inl e
                  \<or> (\<exists>tx. factory_deploy env ReserveToken owner args = Inr tx
                          \<and> utils_check_succesful_tx env tx = Inl e)
               \<longrightarrow> main env kwargs = (pre @ [Deploy ReserveToken owner args], Inl e))"
proof (cases env kwargs rule: main_cases)
  case (not_deployed e)
  with assms show ?thesis by simp
next
  case (auction_failed owner' pf pc e)
  with assms show ?thesis by (simp add: Cons_eq_append_conv)
next
  case (token_failed owner' pf pc txhash receipt e)
  with assms show ?thesis
    by (auto simp: Cons_eq_append_conv)
next
  case (deployed owner' pf pc txhash receipt txhash' receipt' rest res)
  with assms show ?thesis
    by (auto simp: Cons_eq_append_conv)
qed

text \<open>Three runs on the example chain, evaluated.\<close>

lemmas run_defs =
  main_def bind_action_pair lift_def returns_def raise_def emit_def deploy_def
  check_succesful_tx_def transact_setup_def deploy_auction_def deploy_token_def
  initialize_contracts_def start_simulation_def price_parameters_def price_point_def
  owner_of_def prealloc_addresses_of_def prealloc_amounts_of_def truthy_def py_slice_def
  py_int_def py_strip_def is_space_def py_int_digits_def is_digit_def digits_value_def
  digit_value_def multiplier_def

lemma main_example_default:
  "main example_env default_kwargs =
     ([Deploy DutchAuction ''0xa0'' [PInt 6, PInt 66],
       Confirmed ''tx1'' \<lparr>contractAddress = ''0xctx1''\<rparr>,
       Deploy ReserveToken ''0xa0''
         [PStr ''0xctx1'', PInt 10000000000000000000000000, PList [PStr ''0xa1''],
          PList [PInt 200000000000000000000000, PInt 800000000000000000000000]],
       Confirmed ''tx2'' \<lparr>contractAddress = ''0xctx2''\<rparr>,
       Setup ''0xctx1'' ''0xa0'' ''0xctx2'',
       Confirmed ''tx3'' \<lparr>contractAddress = ''0xctx3''\<rparr>],
      Inr ())"
  by (simp add: run_defs example_env_def default_kwargs_def)

lemma main_token_refused:
  "main token_refusing_env default_kwargs =
     ([Deploy DutchAuction ''0xa0'' [PInt 6, PInt 66],
       Confirmed ''tx1'' \<lparr>contractAddress = ''0xctx1''\<rparr>,
       Deploy ReserveToken ''0xa0''
         [PStr ''0xctx1'', PInt 10000000000000000000000000, PList [PStr ''0xa1''],
          PList [PInt 200000000000000000000000, PInt 800000000000000000000000]]],
      Inl DeploymentError)"
  by (simp add: run_defs token_refusing_env_def example_env_def default_kwargs_def)

lemma main_example_price_points:
  "main example_env
     (default_kwargs\<lparr>kw_price_points := Some ''2000000000000000000,0,1000000000000000000,1'',
                     kw_prealloc_amounts := Some ''200000,800000''\<rparr>) =
     ([Deploy DutchAuction ''0xa0'' [PInt 2, PInt 1],
       Confirmed ''tx1'' \<lparr>contractAddress = ''0xctx1''\<rparr>,
       Deploy ReserveToken ''0xa0''
         [PStr ''0xctx1'', PInt 10000000000000000000000000, PList [PStr ''0xa1''],
          PList [PStr ''200000'', PStr ''800000'']],
       Confirmed ''tx2'' \<lparr>contractAddress = ''0xctx2''\<rparr>,
       Setup ''0xctx1'' ''0xa0'' ''0xctx2'',
       Confirmed ''tx3'' \<lparr>contractAddress = ''0xctx3''\<rparr>],
      Inr ())"
  by (simp add: run_defs example_env_def default_kwargs_def getAuctionFactors_def
        reproduces_def price_at_def)

lemma price_parameters_points:
  assumes "kw_price_points kwargs = Some s"
    and "split_comma s = f1 # f2 # f3 # f4 # others"
    and "py_int f1 = Some p1" and "py_int f2 = Some t1"
    and "py_int f3 = Some p2" and "py_int f4 = Some t2"
  shows "price_parameters env kwargs = simulation_getAuctionFactors env p1 t1 p2 t2 multiplier"
proof -
  from assms(2) have "s \<noteq> []"
    by auto
  with assms show ?thesis
    by (simp add: price_parameters_def truthy_def price_point_def)
qed

lemma price_parameters_absent:
  assumes "kw_price_points kwargs = None"
  shows "price_parameters env kwargs = Inr (kw_price_factor kwargs, kw_price_constant kwargs)"
  using assms by (simp add: price_parameters_def truthy_def)

lemma price_options_irrelevant:
  "owner_of env (kwargs\<lparr>kw_price_factor := x, kw_price_constant := y\<rparr>) = owner_of env kwargs"
  "prealloc_addresses_of env (kwargs\<lparr>kw_price_factor := x, kw_price_constant := y\<rparr>)
     = prealloc_addresses_of env kwargs"
  "prealloc_amounts_of (kwargs\<lparr>kw_price_factor := x, kw_price_constant := y\<rparr>)
     = prealloc_amounts_of kwargs"
  "start_simulation env (kwargs\<lparr>kw_price_factor := x, kw_price_constant := y\<rparr>)
     = start_simulation env kwargs"
  by (simp_all add: owner_of_def prealloc_addresses_of_def prealloc_amounts_of_def
        start_simulation_def fun_eq_iff)

lemma price_parameters_ignores_price_options:
  assumes "truthy (kw_price_points kwargs)"
  shows "price_parameters env (kwargs\<lparr>kw_price_factor := x, kw_price_constant := y\<rparr>)
           = price_parameters env kwargs"
  using assms by (simp add: price_parameters_def)

lemma main_ignores_price_options:
  assumes "truthy (kw_price_points kwargs)"
  shows "main env (kwargs\<lparr>kw_price_factor := x, kw_price_constant := y\<rparr>) = main env kwargs"
  unfolding main_def
  by (simp add: price_options_irrelevant price_parameters_ignores_price_options [OF assms]
        cong: if_cong)

text \<open>
  C4. Let \<^verbatim>\<open>price_points\<close> be a string whose first four comma-separated fields are
  the integers \<open>p1, t1, p2, t2\<close>. Then the solver is called with them and the scale
  constant. If it returns \<open>(factor, constant)\<close>, the auction is deployed once, with the
  arguments \<open>[factor, constant]\<close>, provided an owner is found (without an owner nothing
  is deployed); if it raises, the run ends with that exception and nothing is deployed.
  In both cases the options \<^verbatim>\<open>price_factor\<close> and \<^verbatim>\<open>price_constant\<close> have no influence
  on the run. When \<^verbatim>\<open>price_points\<close> is absent, the auction is deployed with the two
  options as they are; their defaults are \<open>6\<close> and \<open>66\<close>.
\<close>

theorem price_points_take_precedence:
  "(kw_price_points kwargs = Some s
      \<and> split_comma s = f1 # f2 # f3 # f4 # others
      \<and> py_int f1 = Some p1 \<and> py_int f2 = Some t1
      \<and> py_int f3 = Some p2 \<and> py_int f4 = Some t2
    \<longrightarrow> deployments DutchAuction (fst (main env kwargs)) =
          (case simulation_getAuctionFactors env p1 t1 p2 t2 multiplier of
             Inl e \<Rightarrow> []
           | Inr (factor, constant) \<Rightarrow>
               (case owner_of env kwargs of
                  Inl e \<Rightarrow> []
                | Inr owner \<Rightarrow>
                    if owner = [] then [] else [[PInt factor, PInt constant]]))
      \<and> (\<forall>e. simulation_getAuctionFactors env p1 t1 p2 t2 multiplier = Inl e
             \<longrightarrow> main env kwargs = ([], Inl e))
      \<and> main env (kwargs\<lparr>kw_price_factor := x, kw_price_constant := y\<rparr>) = main env kwargs)
   \<and> (kw_price_points kwargs = None
    \<longrightarrow> deployments DutchAuction (fst (main env kwargs)) =
          (case owner_of env kwargs of
             Inl e \<Rightarrow> []
           | Inr owner \<Rightarrow>
               if owner = [] then []
               else [[PInt (kw_price_factor kwargs), PInt (kw_price_constant kwargs)]]))
   \<and> kw_price_factor default_kwargs = 6 \<and> kw_price_constant default_kwargs = 66"
proof (intro conjI impI allI)
  assume a: "kw_price_points kwargs = Some s
      \<and> split_comma s = f1 # f2 # f3 # f4 # others
      \<and> py_int f1 = Some p1 \<and> py_int f2 = Some t1
      \<and> py_int f3 = Some p2 \<and> py_int f4 = Some t2"
  then have pp: "price_parameters env kwargs
                   = simulation_getAuctionFactors env p1 t1 p2 t2 multiplier"
    using price_parameters_points [of kwargs s f1 f2 f3 f4 others p1 t1 p2 t2 env] by simp
  show "deployments DutchAuction (fst (main env kwargs)) =
          (case simulation_getAuctionFactors env p1 t1 p2 t2 multiplier of
             Inl e \<Rightarrow> []
           | Inr (factor, constant) \<Rightarrow>
               (case owner_of env kwargs of
                  Inl e \<Rightarrow> []
                | Inr owner \<Rightarrow>
                    if owner = [] then [] else [[PInt factor, PInt constant]]))"
    by (simp add: auction_deployments_main pp)
  show "main env kwargs = ([], Inl e)"
    if "simulation_getAuctionFactors env p1 t1 p2 t2 multiplier = Inl e" for e
    using that by (simp add: main_def lift_def pp)
  from a have "s \<noteq> []" by auto
  with a have "truthy (kw_price_points kwargs)"
    by (simp add: truthy_def)
  then show "main env (kwargs\<lparr>kw_price_factor := x, kw_price_constant := y\<rparr>) = main env kwargs"
    by (rule main_ignores_price_options)
next
  assume "kw_price_points kwargs = None"
  then have pp: "price_parameters env kwargs
                   = Inr (kw_price_factor kwargs, kw_price_constant kwargs)"
    by (rule price_parameters_absent)
  show "deployments DutchAuction (fst (main env kwargs)) =
          (case owner_of env kwargs of
             Inl e \<Rightarrow> []
           | Inr owner \<Rightarrow>
               if owner = [] then []
               else [[PInt (kw_price_factor kwargs), PInt (kw_price_constant kwargs)]])"
    by (simp add: auction_deployments_main pp)
qed (simp_all add: default_kwargs_def)

lemma default_kwargs_sel:
  "kw_supply default_kwargs = 10000000"
  "kw_price_points default_kwargs = None"
  "kw_prealloc_addresses default_kwargs = None"
  "kw_prealloc_amounts default_kwargs = None"
  "kw_price_factor default_kwargs = 6"
  "kw_price_constant default_kwargs = 66"
  by (simp_all add: default_kwargs_def)

lemma example_env_sel:
  "simulation_getAuctionFactors example_env = getAuctionFactors"
  "web3_eth_accounts example_env = [''0xa0'', ''0xa1'']"
  by (simp_all add: example_env_def)

lemma getAuctionFactors_example:
  "getAuctionFactors 2000000000000000000 0 1000000000000000000 1 multiplier = Inr (2, 1)"
  by (simp add: getAuctionFactors_def reproduces_def price_at_def multiplier_def)

lemma py_int_examples:
  "py_int ''2000000000000000000'' = Some 2000000000000000000"
  "py_int ''1000000000000000000'' = Some 1000000000000000000"
  "py_int ''0'' = Some 0"
  "py_int ''1'' = Some 1"
  "py_int ''100000000000000000'' = Some 100000000000000000"
  "py_int ''10000000000000000'' = Some 10000000000000000"
  "py_int ''600'' = Some 600"
  by (simp_all add: py_int_def py_strip_def is_space_def py_int_digits_def is_digit_def
        digits_value_def digit_value_def)

text \<open>
  Spellings that \<^verbatim>\<open>int\<close> accepts beside the plain one, and some that it rejects.
\<close>

lemma py_int_spellings:
  "py_int '' 2_000_000_000_000_000_000'' = Some 2000000000000000000"
  "py_int ''0 '' = Some 0"
  "py_int ''+1'' = Some 1"
  "py_int ''-12'' = Some (- 12)"
  "py_int ''1_0'' = Some 10"
  "py_int ''5_'' = None"
  "py_int ''_5'' = None"
  "py_int ''5__0'' = None"
  "py_int ''1 0'' = None"
  "py_int ''+ 5'' = None"
  "py_int [] = None"
  "py_int ''0x10'' = None"
  by (simp_all add: py_int_def py_strip_def is_space_def py_int_digits_def is_digit_def
        digits_value_def digit_value_def)

theorem price_points_take_precedence_witness:
  "deployments DutchAuction
     (fst (main example_env
        (default_kwargs\<lparr>kw_price_points := Some ''2000000000000000000,0,1000000000000000000,1'',
                        kw_prealloc_amounts := Some ''200000,800000''\<rparr>)))
     = [[PInt 2, PInt 1]]
   \<and> deployments DutchAuction
       (fst (main example_env
          (default_kwargs\<lparr>kw_price_points :=
             Some '' 2_000_000_000_000_000_000,0 ,1000000000000000000,+1''\<rparr>)))
     = [[PInt 2, PInt 1]]
   \<and> main example_env
       (default_kwargs\<lparr>kw_price_points := Some ''100000000000000000,0,10000000000000000,600'',
                       kw_price_factor := 1, kw_price_constant := 7\<rparr>)
     = ([], Inl UnsolvablePriceModel)
   \<and> deployments DutchAuction (fst (main example_env default_kwargs)) = [[PInt 6, PInt 66]]"
proof -
  let ?s = "''2000000000000000000,0,1000000000000000000,1''"
  let ?kwargs = "default_kwargs\<lparr>kw_price_points := Some ?s,
                   kw_prealloc_amounts := Some ''200000,800000''\<rparr>"
  let ?s' = "'' 2_000_000_000_000_000_000,0 ,1000000000000000000,+1''"
  let ?kwargs' = "default_kwargs\<lparr>kw_price_points := Some ?s'\<rparr>"
  let ?h = "''100000000000000000,0,10000000000000000,600''"
  let ?kwargs_h = "default_kwargs\<lparr>kw_price_points := Some ?h,
                     kw_price_factor := 1, kw_price_constant := 7\<rparr>"
  have points: "kw_price_points ?kwargs = Some ?s
      \<and> split_comma ?s = ''2000000000000000000'' # ''0'' # ''1000000000000000000'' # ''1'' # []
      \<and> py_int ''2000000000000000000'' = Some 2000000000000000000
      \<and> py_int ''0'' = Some 0
      \<and> py_int ''1000000000000000000'' = Some 1000000000000000000
      \<and> py_int ''1'' = Some 1"
    by (simp add: py_int_examples)
  have points': "kw_price_points ?kwargs' = Some ?s'
      \<and> split_comma ?s'
          = '' 2_000_000_000_000_000_000'' # ''0 '' # ''1000000000000000000'' # ''+1'' # []
      \<and> py_int '' 2_000_000_000_000_000_000'' = Some 2000000000000000000
      \<and> py_int ''0 '' = Some 0
      \<and> py_int ''1000000000000000000'' = Some 1000000000000000000
      \<and> py_int ''+1'' = Some 1"
    by (simp add: py_int_examples py_int_spellings)
  have points_h: "kw_price_points ?kwargs_h = Some ?h
      \<and> split_comma ?h = ''100000000000000000'' # ''0'' # ''10000000000000000'' # ''600'' # []
      \<and> py_int ''100000000000000000'' = Some 100000000000000000
      \<and> py_int ''0'' = Some 0
      \<and> py_int ''10000000000000000'' = Some 10000000000000000
      \<and> py_int ''600'' = Some 600"
    by (simp add: py_int_examples)
  have solved: "simulation_getAuctionFactors example_env 2000000000000000000 0
                  1000000000000000000 1 multiplier = Inr (2, 1)"
    by (simp add: example_env_sel getAuctionFactors_example)
  have raised: "simulation_getAuctionFactors example_env 100000000000000000 0
                  10000000000000000 600 multiplier = Inl UnsolvablePriceModel"
    by (simp add: example_env_sel getAuctionFactors_help_text_sample)
  have owner: "owner_of example_env ?kwargs = Inr ''0xa0''"
    "owner_of example_env ?kwargs' = Inr ''0xa0''"
    "owner_of example_env default_kwargs = Inr ''0xa0''"
    by (simp_all add: owner_of_def truthy_def example_env_sel default_kwargs_def)
  note supplied = price_points_take_precedence
         [where env = example_env and kwargs = ?kwargs and s = ?s
            and ?f1.0 = "''2000000000000000000''" and ?f2.0 = "''0''"
            and ?f3.0 = "''1000000000000000000''" and ?f4.0 = "''1''" and others = "[]"
            and ?p1.0 = 2000000000000000000 and ?t1.0 = 0
            and ?p2.0 = 1000000000000000000 and ?t2.0 = 1 and x = 0 and y = 0,
          THEN conjunct1, THEN mp, OF points, THEN conjunct1]
  note supplied' = price_points_take_precedence
         [where env = example_env and kwargs = ?kwargs' and s = ?s'
            and ?f1.0 = "'' 2_000_000_000_000_000_000''" and ?f2.0 = "''0 ''"
            and ?f3.0 = "''1000000000000000000''" and ?f4.0 = "''+1''" and others = "[]"
            and ?p1.0 = 2000000000000000000 and ?t1.0 = 0
            and ?p2.0 = 1000000000000000000 and ?t2.0 = 1 and x = 0 and y = 0,
          THEN conjunct1, THEN mp, OF points', THEN conjunct1]
  note refused = price_points_take_precedence
         [where env = example_env and kwargs = ?kwargs_h and s = ?h
            and ?f1.0 = "''100000000000000000''" and ?f2.0 = "''0''"
            and ?f3.0 = "''10000000000000000''" and ?f4.0 = "''600''" and others = "[]"
            and ?p1.0 = 100000000000000000 and ?t1.0 = 0
            and ?p2.0 = 10000000000000000 and ?t2.0 = 600 and x = 0 and y = 0,
          THEN conjunct1, THEN mp, OF points_h, THEN conjunct2, THEN conjunct1,
          rule_format, OF raised]
  note absent = price_points_take_precedence
         [where env = example_env and kwargs = default_kwargs,
          THEN conjunct2, THEN conjunct1, THEN mp, OF default_kwargs_sel(2)]
  have "deployments DutchAuction (fst (main example_env ?kwargs)) = [[PInt 2, PInt 1]]"
    using supplied by (simp add: solved owner)
  moreover
  have "deployments DutchAuction (fst (main example_env ?kwargs')) = [[PInt 2, PInt 1]]"
    using supplied' by (simp add: solved owner)
  moreover
  have "main example_env ?kwargs_h = ([], Inl UnsolvablePriceModel)"
    by (rule refused)
  moreover
  have "deployments DutchAuction (fst (main example_env default_kwargs)) = [[PInt 6, PInt 66]]"
    using absent by (simp add: owner default_kwargs_sel)
  ultimately show ?thesis by simp
qed

theorem token_deployment_follows_confirmed_auction_witness:
  "main token_refusing_env default_kwargs =
     ([Deploy DutchAuction ''0xa0'' [PInt 6, PInt 66],
       Confirmed ''tx1'' \<lparr>contractAddress = ''0xctx1''\<rparr>]
      @ [Deploy ReserveToken ''0xa0''
           [PStr ''0xctx1'', PInt 10000000000000000000000000, PList [PStr ''0xa1''],
            PList [PInt 200000000000000000000000, PInt 800000000000000000000000]]],
      Inl DeploymentError)"
  using token_deployment_follows_confirmed_auction
          [of token_refusing_env default_kwargs
              "[Deploy DutchAuction ''0xa0'' [PInt 6, PInt 66],
                Confirmed ''tx1'' \<lparr>contractAddress = ''0xctx1''\<rparr>]"
              "''0xa0''"
              "[PStr ''0xctx1'', PInt 10000000000000000000000000, PList [PStr ''0xa1''],
                PList [PInt 200000000000000000000000, PInt 800000000000000000000000]]"
              "[]"]
  by (simp add: main_token_refused)

lemma token_deployment_args:
  assumes "args \<in> set (deployments ReserveToken (fst (main env kwargs)))"
  shows "\<exists>auction_address. args = token_args env kwargs auction_address"
  using assms token_deployments_main [of env kwargs] by auto

text \<open>
  C8. The scale constant is \<open>10^18\<close>, and the supply given to every token deployment
  is the \<^verbatim>\<open>supply\<close> option times \<open>10^18\<close>; for the default \<open>10000000\<close> that is
  \<open>10^25\<close>. The model has one constant \<open>multiplier\<close>, as the script has one
  assignment to it.
\<close>

theorem token_supply_scaled:
  "multiplier = 10 ^ 18
   \<and> (\<forall>args \<in> set (deployments ReserveToken (fst (main env kwargs))).
         length args = 4 \<and> args ! 1 = PInt (kw_supply kwargs * 10 ^ 18))
   \<and> (kw_supply kwargs = 10000000
       \<longrightarrow> (\<forall>args \<in> set (deployments ReserveToken (fst (main env kwargs))).
              args ! 1 = PInt (10 ^ 25)))
   \<and> kw_supply default_kwargs = 10000000"
proof (intro conjI ballI impI)
  show "multiplier = 10 ^ 18"
    by (simp add: multiplier_def)
  show "kw_supply default_kwargs = 10000000"
    by (simp add: default_kwargs_def)
next
  fix args
  assume "args \<in> set (deployments ReserveToken (fst (main env kwargs)))"
  then obtain a where args: "args = token_args env kwargs a"
    using token_deployment_args by blast
  show "length args = 4" and "args ! 1 = PInt (kw_supply kwargs * 10 ^ 18)"
    by (simp_all add: args token_args_def multiplier_def)
  show "args ! 1 = PInt (10 ^ 25)" if "kw_supply kwargs = 10000000"
    using that by (simp add: args token_args_def multiplier_def)
qed

theorem token_supply_scaled_witness:
  "deployments ReserveToken (fst (main example_env default_kwargs)) =
     [[PStr ''0xctx1'', PInt (10 ^ 25), PList [PStr ''0xa1''],
       PList [PInt 200000000000000000000000, PInt 800000000000000000000000]]]
   \<and> [PStr ''0xctx1'', PInt (10 ^ 25), PList [PStr ''0xa1''],
       PList [PInt 200000000000000000000000, PInt 800000000000000000000000]] ! 1
     = PInt (kw_supply default_kwargs * 10 ^ 18)"
  using token_supply_scaled [of example_env default_kwargs]
  by (simp add: main_example_default default_kwargs_sel)

text \<open>
  C9, as amended. When \<^verbatim>\<open>prealloc_amounts\<close> is a non-empty string, the amounts given
  to the token deployment are its comma-separated fields, as strings and not scaled;
  when the option is absent or empty they are the integers \<open>200000 * 10^18\<close> and
  \<open>800000 * 10^18\<close>. The option value \<^verbatim>\<open>200000,800000\<close> therefore does not give the
  default amounts.
\<close>

theorem prealloc_amounts_passed_as_given:
  "(kw_prealloc_amounts kwargs = Some s \<and> s \<noteq> []
      \<longrightarrow> (\<forall>args \<in> set (deployments ReserveToken (fst (main env kwargs))).
             args ! 3 = PList (map PStr (split_comma s))))
   \<and> (kw_prealloc_amounts kwargs = None \<or> kw_prealloc_amounts kwargs = Some []
      \<longrightarrow> (\<forall>args \<in> set (deployments ReserveToken (fst (main env kwargs))).
             args ! 3 = PList [PInt (200000 * 10 ^ 18), PInt (800000 * 10 ^ 18)]))
   \<and> map PStr (split_comma ''200000,800000'') = [PStr ''200000'', PStr ''800000'']
   \<and> [PStr ''200000'', PStr ''800000'']
       \<noteq> [PInt (200000 * 10 ^ 18), PInt (800000 * 10 ^ 18)]"
proof (intro conjI ballI impI)
  fix args
  assume supplied: "kw_prealloc_amounts kwargs = Some s \<and> s \<noteq> []"
    and "args \<in> set (deployments ReserveToken (fst (main env kwargs)))"
  then obtain a where "args = token_args env kwargs a"
    using token_deployment_args by blast
  with supplied show "args ! 3 = PList (map PStr (split_comma s))"
    by (simp add: token_args_def prealloc_amounts_of_def truthy_def)
next
  fix args
  assume absent: "kw_prealloc_amounts kwargs = None \<or> kw_prealloc_amounts kwargs = Some []"
    and "args \<in> set (deployments ReserveToken (fst (main env kwargs)))"
  then obtain a where "args = token_args env kwargs a"
    using token_deployment_args by blast
  with absent show "args ! 3 = PList [PInt (200000 * 10 ^ 18), PInt (800000 * 10 ^ 18)]"
    by (auto simp: token_args_def prealloc_amounts_of_def truthy_def multiplier_def)
qed simp_all

theorem prealloc_amounts_passed_as_given_witness:
  "deployments ReserveToken
     (fst (main example_env
        (default_kwargs\<lparr>kw_price_points := Some ''2000000000000000000,0,1000000000000000000,1'',
                        kw_prealloc_amounts := Some ''200000,800000''\<rparr>)))
     = [[PStr ''0xctx1'', PInt 10000000000000000000000000, PList [PStr ''0xa1''],
         PList [PStr ''200000'', PStr ''800000'']]]
   \<and> deployments ReserveToken (fst (main example_env default_kwargs))
     = [[PStr ''0xctx1'', PInt 10000000000000000000000000, PList [PStr ''0xa1''],
         PList [PInt 200000000000000000000000, PInt 800000000000000000000000]]]"
  using prealloc_amounts_passed_as_given
          [of "default_kwargs\<lparr>kw_price_points :=
                   Some ''2000000000000000000,0,1000000000000000000,1'',
                 kw_prealloc_amounts := Some ''200000,800000''\<rparr>"
              "''200000,800000''" example_env]
        prealloc_amounts_passed_as_given [of default_kwargs "[]" example_env]
  by (simp add: main_example_price_points main_example_default)

lemma main_example_empty_amounts:
  "main example_env (default_kwargs\<lparr>kw_prealloc_amounts := Some ''''\<rparr>) =
     main example_env default_kwargs"
  by (simp add: main_def prealloc_amounts_of_def truthy_def default_kwargs_def
        price_parameters_def owner_of_def prealloc_addresses_of_def)

text \<open>
  C9 as stated fails for the empty option value: it is given on the command line, but
  line 126 tests its truth value, and the default integers are deployed instead of the
  one empty field.
\<close>

theorem prealloc_amounts_empty_counterexample:
  "kw_prealloc_amounts (default_kwargs\<lparr>kw_prealloc_amounts := Some ''''\<rparr>) = Some ''''
   \<and> deployments ReserveToken
       (fst (main example_env (default_kwargs\<lparr>kw_prealloc_amounts := Some ''''\<rparr>)))
     = [[PStr ''0xctx1'', PInt 10000000000000000000000000, PList [PStr ''0xa1''],
         PList [PInt 200000000000000000000000, PInt 800000000000000000000000]]]
   \<and> PList [PInt 200000000000000000000000, PInt 800000000000000000000000]
       \<noteq> PList (map PStr (split_comma ''''))"
  by (simp add: main_example_empty_amounts main_example_default)

text \<open>
  On every chain with exactly two accounts the slice \<^verbatim>\<open>accounts[1:3]\<close> has one
  element, while the default amounts are two.
\<close>

lemma prealloc_addresses_two_accounts:
  assumes "\<not> truthy (kw_prealloc_addresses kwargs)"
    and "length (web3_eth_accounts env) = 2"
  shows "length (prealloc_addresses_of env kwargs) = 1"
  using assms by (simp add: prealloc_addresses_of_def py_slice_def)

text \<open>
  C10. There is a run without the \<^verbatim>\<open>prealloc_addresses\<close> option, on a chain with
  exactly two accounts, in which the token deployment receives one preallocation
  address and two preallocation amounts.
\<close>

theorem prealloc_lists_may_differ_in_length:
  "\<exists>env kwargs.
     kw_prealloc_addresses kwargs = None \<and> length (web3_eth_accounts env) = 2
     \<and> (\<exists>owner auction_address supply addresses amounts.
           Deploy ReserveToken owner
             [PStr auction_address, PInt supply, PList addresses, PList amounts]
             \<in> set (fst (main env kwargs))
           \<and> length addresses = 1 \<and> length amounts = 2)"
proof (intro exI conjI)
  show "kw_prealloc_addresses default_kwargs = None"
    by (simp add: default_kwargs_def)
  show "length (web3_eth_accounts example_env) = 2"
    by (simp add: example_env_def)
  show "Deploy ReserveToken ''0xa0''
          [PStr ''0xctx1'', PInt 10000000000000000000000000, PList [PStr ''0xa1''],
           PList [PInt 200000000000000000000000, PInt 800000000000000000000000]]
          \<in> set (fst (main example_env default_kwargs))"
    by (simp add: main_example_default)
qed simp_all


subsection \<open>The scheduler\<close>

text \<open>What an accepted journal says about the order of its events.\<close>

lemma read_journal_append:
  "read_journal st (evs @ evs') =
     (case read_journal st evs of None \<Rightarrow> None | Some st' \<Rightarrow> read_journal st' evs')"
  by (induction evs arbitrary: st) (simp_all split: option.splits)

lemma run_bids_not_running:
  "run_state s \<noteq> Running \<Longrightarrow> run_bids gw bidders interval k n s = s"
  by (cases n) simp_all

lemma submitted_after_confirmed:
  assumes "read_journal (pending, nxt) (pre @ BidSubmitted j b p # post) = Some st"
  shows "nxt \<le> j \<and> (\<forall>i. nxt \<le> i \<and> i < j \<longrightarrow> BidConfirmed i \<in> set pre)
         \<and> (\<forall>q. pending = Some q \<longrightarrow> BidConfirmed q \<in> set pre)"
  using assms
proof (induction pre arbitrary: pending nxt)
  case Nil
  then show ?case
    by (auto split: option.splits if_splits)
next
  case (Cons ev pre)
  show ?case
  proof (cases ev)
    case (PriceRead k q)
    with Cons.prems have "read_journal (pending, nxt) (pre @ BidSubmitted j b p # post) = Some st"
      by simp
    from Cons.IH [OF this] show ?thesis by auto
  next
    case (BidSubmitted k c q)
    with Cons.prems have pn: "pending = None" "k = nxt"
      and "read_journal (Some nxt, Suc nxt) (pre @ BidSubmitted j b p # post) = Some st"
      by (auto split: if_splits option.splits)
    from Cons.IH [OF this(3)] pn show ?thesis
      by (auto simp: le_Suc_eq dest: le_neq_implies_less)
  next
    case (BidConfirmed k)
    with Cons.prems have pn: "pending = Some k"
      and "read_journal (None, nxt) (pre @ BidSubmitted j b p # post) = Some st"
      by (auto split: if_splits option.splits)
    from Cons.IH [OF this(2)] pn BidConfirmed show ?thesis by auto
  next
    case (Slept i)
    with Cons.prems have "read_journal (pending, nxt) (pre @ BidSubmitted j b p # post) = Some st"
      by simp
    from Cons.IH [OF this] show ?thesis by auto
  qed
qed

lemma in_flight_prefix:
  assumes "read_journal (pending, nxt) evs = Some st"
  shows "in_flight (take m evs) + (if pending = None then 0 else 1) \<in> {0, 1}"
  using assms
proof (induction evs arbitrary: pending nxt m)
  case Nil
  then show ?case by simp
next
  case (Cons ev evs)
  show ?case
  proof (cases m)
    case 0
    then show ?thesis by simp
  next
    case (Suc m')
    show ?thesis
    proof (cases ev)
      case (PriceRead k q)
      with Cons.prems have "read_journal (pending, nxt) evs = Some st" by simp
      from Cons.IH [OF this, of m'] PriceRead Suc show ?thesis by simp
    next
      case (BidSubmitted k c q)
      with Cons.prems have pn: "pending = None"
        and "read_journal (Some k, Suc nxt) evs = Some st"
        by (auto split: if_splits option.splits)
      from Cons.IH [OF this(2), of m'] pn BidSubmitted Suc show ?thesis by simp
    next
      case (BidConfirmed k)
      with Cons.prems have pn: "pending = Some k"
        and "read_journal (None, nxt) evs = Some st"
        by (auto split: if_splits option.splits)
      from Cons.IH [OF this(2), of m'] pn BidConfirmed Suc show ?thesis by simp
    next
      case (Slept i)
      with Cons.prems have "read_journal (pending, nxt) evs = Some st" by simp
      from Cons.IH [OF this, of m'] Slept Suc show ?thesis by simp
    qed
  qed
qed

text \<open>The loop keeps its invariant until an iteration ends the run.\<close>

lemma map_filter_append:
  "List.map_filter f (xs @ ys) = List.map_filter f xs @ List.map_filter f ys"
  by (simp add: List.map_filter_def)

lemma next_bidder_Some:
  "next_bidder bidders k = Some b \<Longrightarrow> b = bidders ! (k mod length bidders)"
  by (simp add: next_bidder_def split: if_splits)

lemma bid_step_invariant:
  assumes "running_at gw bidders k s"
  shows "running_at gw bidders (Suc k) (bid_step gw bidders interval k s)
         \<or> stopped_at gw bidders k (bid_step gw bidders interval k s)"
proof (cases "auction_ended gw k")
  case True
  with assms show ?thesis
    by (simp add: Let_def bid_step_def running_at_def stopped_at_def read_journal_append
          map_filter_append List.map_filter_simps)
next
  case False
  show ?thesis
  proof (cases "next_bidder bidders k")
    case None
    with False assms show ?thesis
      by (simp add: Let_def bid_step_def abort_def running_at_def stopped_at_def read_journal_append
            map_filter_append List.map_filter_simps)
  next
    case (Some b)
    note b = next_bidder_Some [OF Some]
    show ?thesis
    proof (cases "transact gw k b (current_price gw k)")
      case (Inl e)
      with False Some assms show ?thesis
        by (simp add: Let_def bid_step_def abort_def running_at_def stopped_at_def
              read_journal_append map_filter_append List.map_filter_simps)
    next
      case tx: (Inr tx)
      show ?thesis
      proof (cases "awaitReceipt gw k tx")
        case (Inl e)
        with False Some tx assms show ?thesis
          by (simp add: Let_def bid_step_def abort_def running_at_def stopped_at_def
                read_journal_append map_filter_append List.map_filter_simps)
      next
        case (Inr u)
        with False Some tx assms b show ?thesis
          by (simp add: Let_def bid_step_def running_at_def bid_at_def
                read_journal_append map_filter_append List.map_filter_simps)
      qed
    qed
  qed
qed

lemma stopped_at_not_running: "stopped_at gw bidders k s \<Longrightarrow> run_state s \<noteq> Running"
  by (auto simp: stopped_at_def)

lemma run_bids_invariant:
  assumes "running_at gw bidders k s"
  shows "\<exists>k'. running_at gw bidders k' (run_bids gw bidders interval k n s)
            \<or> stopped_at gw bidders k' (run_bids gw bidders interval k n s)"
  using assms
proof (induction n arbitrary: k s)
  case 0
  then show ?case by auto
next
  case (Suc n)
  then have running: "run_state s = Running"
    by (simp add: running_at_def)
  from bid_step_invariant [OF Suc.prems, of interval] show ?case
  proof
    assume "running_at gw bidders (Suc k) (bid_step gw bidders interval k s)"
    from Suc.IH [OF this] running show ?thesis by simp
  next
    assume stopped: "stopped_at gw bidders k (bid_step gw bidders interval k s)"
    then have "run_bids gw bidders interval (Suc k) n (bid_step gw bidders interval k s)
                 = bid_step gw bidders interval k s"
      by (intro run_bids_not_running stopped_at_not_running)
    with stopped running show ?thesis by auto
  qed
qed

lemma initial_running_at:
  "running_at gw bidders 0 (initial_scheduler\<lparr>run_state := Running\<rparr>)"
  by (simp add: running_at_def initial_scheduler_def List.map_filter_simps)

lemma auction_simulation_stopped:
  "\<exists>k. stopped_at gw bidders k (auction_simulation gw bidders n interval p0)"
proof -
  let ?s = "run_bids gw bidders interval 0 (nat n) (initial_scheduler\<lparr>run_state := Running\<rparr>)"
  from run_bids_invariant [OF initial_running_at]
  obtain k where "running_at gw bidders k ?s \<or> stopped_at gw bidders k ?s"
    by blast
  then show ?thesis
  proof
    assume "running_at gw bidders k ?s"
    then have "stopped_at gw bidders k (auction_simulation gw bidders n interval p0)"
      by (simp add: auction_simulation_def running_at_def stopped_at_def)
    then show ?thesis ..
  next
    assume st: "stopped_at gw bidders k ?s"
    then have "auction_simulation gw bidders n interval p0 = ?s"
      by (simp add: auction_simulation_def stopped_at_not_running)
    with st show ?thesis by auto
  qed
qed

lemma stopped_at_sequence_indices:
  assumes "stopped_at gw bidders k s"
  shows "length (recorded s) = k" and "map sequenceIndex (recorded s) = [0..<k]"
  using assms by (simp_all add: stopped_at_def bid_at_def comp_def)

text \<open>
  C6. In every simulation run the journal is sequential: a bid is submitted only when
  no bid is in flight, so bid \<open>k + 1\<close> is submitted after the confirmation of bid \<open>k\<close>;
  at no point of the run is more than one bid in flight; the confirmations come in the
  order of the submissions, \<open>0, 1, 2, \<dots>\<close>, one for each recorded bid; at most the last
  submitted bid is unconfirmed; and the recorded bids carry these indices in order.
\<close>

theorem bids_strictly_sequential:
  "let s = auction_simulation gw bidders n interval p0 in
     sequential (journal s)
     \<and> (\<forall>pre k b p post.
           journal s = pre @ BidSubmitted (Suc k) b p # post \<longrightarrow> BidConfirmed k \<in> set pre)
     \<and> (\<forall>m. in_flight (take m (journal s)) \<in> {0, 1})
     \<and> List.map_filter confirmed_index (journal s) = [0..<length (recorded s)]
     \<and> List.map_filter submitted_index (journal s)
         \<in> {[0..<length (recorded s)], [0..<Suc (length (recorded s))]}
     \<and> map sequenceIndex (recorded s) = [0..<length (recorded s)]"
proof -
  define s where "s = auction_simulation gw bidders n interval p0"
  obtain k where stopped: "stopped_at gw bidders k s"
    unfolding s_def using auction_simulation_stopped by blast
  note len = stopped_at_sequence_indices [OF stopped]
  from stopped obtain st where st: "read_journal (None, 0) (journal s) = Some st"
    by (auto simp: stopped_at_def)
  then have "sequential (journal s)"
    by (simp add: sequential_def)
  moreover have "BidConfirmed i \<in> set pre"
    if "journal s = pre @ BidSubmitted (Suc i) b p # post" for pre i b p post
    using submitted_after_confirmed [of None 0 pre "Suc i" b p post st] st that by simp
  moreover have "in_flight (take m (journal s)) \<in> {0, 1}" for m
    using in_flight_prefix [OF st, of m] by simp
  moreover from stopped len
  have "List.map_filter confirmed_index (journal s) = [0..<length (recorded s)]"
    and "List.map_filter submitted_index (journal s)
           \<in> {[0..<length (recorded s)], [0..<Suc (length (recorded s))]}"
    and "map sequenceIndex (recorded s) = [0..<length (recorded s)]"
    by (simp_all add: stopped_at_def)
  ultimately show ?thesis
    unfolding s_def [symmetric] Let_def by blast
qed

lemma bid_step_confirmed:
  assumes "running_at gw bidders k s" and "bidders \<noteq> []" and "bid_confirmed gw bidders k"
  shows "running_at gw bidders (Suc k) (bid_step gw bidders interval k s)"
proof -
  from assms(2,3) have "run_state (bid_step gw bidders interval k s) = run_state s"
    by (auto simp: bid_step_def bid_confirmed_def next_bidder_def Let_def split: sum.splits)
  with assms(1) have "run_state (bid_step gw bidders interval k s) = Running"
    by (simp add: running_at_def)
  with bid_step_invariant [OF assms(1), of interval] show ?thesis
    by (auto dest: stopped_at_not_running)
qed

lemma bid_step_fails:
  assumes "running_at gw bidders k s" and "bidders \<noteq> []" and "bid_fails gw bidders k e"
  shows "stopped_at gw bidders k (bid_step gw bidders interval k s)
         \<and> run_state (bid_step gw bidders interval k s) = Aborted
         \<and> failure (bid_step gw bidders interval k s) = Some e"
proof -
  from assms(2,3)
  have "run_state (bid_step gw bidders interval k s) = Aborted
        \<and> failure (bid_step gw bidders interval k s) = Some e"
    by (auto simp: bid_step_def bid_fails_def next_bidder_def abort_def Let_def
          split: sum.splits)
  with bid_step_invariant [OF assms(1), of interval] show ?thesis
    by (auto simp: running_at_def)
qed

lemma run_bids_fails:
  assumes "running_at gw bidders k s" and "bidders \<noteq> []"
    and "k \<le> j" and "j < k + n"
    and "\<forall>i. k \<le> i \<and> i < j \<longrightarrow> bid_confirmed gw bidders i"
    and "bid_fails gw bidders j e"
  shows "stopped_at gw bidders j (run_bids gw bidders interval k n s)
         \<and> run_state (run_bids gw bidders interval k n s) = Aborted
         \<and> failure (run_bids gw bidders interval k n s) = Some e"
  using assms
proof (induction n arbitrary: k s)
  case 0
  then show ?case by simp
next
  case (Suc n)
  from Suc.prems(1) have running: "run_state s = Running"
    by (simp add: running_at_def)
  show ?case
  proof (cases "k = j")
    case True
    from bid_step_fails [OF Suc.prems(1,2), of e interval] Suc.prems(6) True
    have fails: "stopped_at gw bidders j (bid_step gw bidders interval k s)
           \<and> run_state (bid_step gw bidders interval k s) = Aborted
           \<and> failure (bid_step gw bidders interval k s) = Some e"
      by simp
    then have "run_bids gw bidders interval (Suc k) n (bid_step gw bidders interval k s)
                 = bid_step gw bidders interval k s"
      by (intro run_bids_not_running) simp
    with fails running show ?thesis by simp
  next
    case False
    with Suc.prems have "bid_confirmed gw bidders k" and "Suc k \<le> j" and "j < Suc k + n"
      by auto
    from bid_step_confirmed [OF Suc.prems(1,2) this(1), of interval]
    have "running_at gw bidders (Suc k) (bid_step gw bidders interval k s)" .
    from Suc.IH [OF this Suc.prems(2) \<open>Suc k \<le> j\<close> \<open>j < Suc k + n\<close> _ Suc.prems(6)]
      Suc.prems(5) running
    show ?thesis by simp
  qed
qed

text \<open>
  C7. Let the bid with index \<open>j\<close> (the submission number \<open>j + 1\<close>) be among the
  scheduled ones, let every earlier bid be confirmed, and let bid \<open>j\<close> fail with \<open>e\<close>:
  it is rejected, or its confirmation fails or times out. Then the run ends \<open>Aborted\<close>
  with the failure \<open>e\<close>, the recorded bids are exactly the \<open>j\<close> earlier ones, and no bid
  after bid \<open>j\<close> is submitted. With a time-out on the fourth submission, three bids are
  recorded.
\<close>

theorem failed_bid_aborts_simulation:
  assumes "bidders \<noteq> []" and "j < nat bids_number"
    and "\<forall>i<j. bid_confirmed gw bidders i" and "bid_fails gw bidders j e"
  shows "let s = auction_simulation gw bidders bids_number interval p0 in
           run_state s = Aborted \<and> failure s = Some e
           \<and> recorded s = map (bid_at gw bidders) [0..<j] \<and> length (recorded s) = j
           \<and> List.map_filter submitted_index (journal s) \<in> {[0..<j], [0..<Suc j]}
           \<and> List.map_filter confirmed_index (journal s) = [0..<j]"
proof -
  let ?s = "run_bids gw bidders interval 0 (nat bids_number)
              (initial_scheduler\<lparr>run_state := Running\<rparr>)"
  from assms
  have r: "stopped_at gw bidders j ?s \<and> run_state ?s = Aborted \<and> failure ?s = Some e"
    by (intro run_bids_fails initial_running_at) simp_all
  then have "auction_simulation gw bidders bids_number interval p0 = ?s"
    by (simp add: auction_simulation_def)
  with r show ?thesis
    by (simp add: stopped_at_def Let_def)
qed

text \<open>The run of scenario 4: three bidders, ten bids, a time-out on the fourth.\<close>

lemma simulation_fourth_times_out:
  "auction_simulation fourth_times_out [''a'', ''b'', ''c''] 10 0 5 =
     \<lparr>run_state = Aborted,
      recorded =
        [\<lparr>bidder = ''a'', observedPrice = 1000, sequenceIndex = 0\<rparr>,
         \<lparr>bidder = ''b'', observedPrice = 999, sequenceIndex = 1\<rparr>,
         \<lparr>bidder = ''c'', observedPrice = 998, sequenceIndex = 2\<rparr>],
      journal =
        [PriceRead 0 1000, BidSubmitted 0 ''a'' 1000, BidConfirmed 0, Slept 0,
         PriceRead 1 999, BidSubmitted 1 ''b'' 999, BidConfirmed 1, Slept 0,
         PriceRead 2 998, BidSubmitted 2 ''c'' 998, BidConfirmed 2, Slept 0,
         PriceRead 3 997, BidSubmitted 3 ''a'' 997],
      failure = Some ConfirmationTimeoutError\<rparr>"
  by code_simp

theorem bids_strictly_sequential_witness:
  "journal (auction_simulation fourth_times_out [''a'', ''b'', ''c''] 10 0 5) =
     [PriceRead 0 1000, BidSubmitted 0 ''a'' 1000, BidConfirmed 0, Slept 0, PriceRead 1 999]
       @ BidSubmitted (Suc 0) ''b'' 999
       # [BidConfirmed 1, Slept 0,
          PriceRead 2 998, BidSubmitted 2 ''c'' 998, BidConfirmed 2, Slept 0,
          PriceRead 3 997, BidSubmitted 3 ''a'' 997]
   \<and> BidConfirmed 0
       \<in> set [PriceRead 0 1000, BidSubmitted 0 ''a'' 1000, BidConfirmed 0, Slept 0,
               PriceRead 1 999]"
proof -
  have split: "journal (auction_simulation fourth_times_out [''a'', ''b'', ''c''] 10 0 5) =
     [PriceRead 0 1000, BidSubmitted 0 ''a'' 1000, BidConfirmed 0, Slept 0, PriceRead 1 999]
       @ BidSubmitted (Suc 0) ''b'' 999
       # [BidConfirmed 1, Slept 0,
          PriceRead 2 998, BidSubmitted 2 ''c'' 998, BidConfirmed 2, Slept 0,
          PriceRead 3 997, BidSubmitted 3 ''a'' 997]"
    by (simp add: simulation_fourth_times_out)
  from bids_strictly_sequential [of fourth_times_out "[''a'', ''b'', ''c'']" 10 0 5,
         unfolded Let_def, THEN conjunct2, THEN conjunct1, rule_format, OF split]
    split
  show ?thesis by (rule conjI [rotated])
qed

theorem failed_bid_aborts_simulation_witness:
  "run_state (auction_simulation fourth_times_out [''a'', ''b'', ''c''] 10 0 5) = Aborted
   \<and> failure (auction_simulation fourth_times_out [''a'', ''b'', ''c''] 10 0 5)
       = Some ConfirmationTimeoutError
   \<and> length (recorded (auction_simulation fourth_times_out [''a'', ''b'', ''c''] 10 0 5)) = 3"
proof -
  have bidders: "[''a'', ''b'', ''c''] \<noteq> []"
    by simp
  have fourth: "3 < nat 10"
    by simp
  have earlier: "\<forall>i<3. bid_confirmed fourth_times_out [''a'', ''b'', ''c''] i"
    by (simp add: bid_confirmed_def fourth_times_out_def)
  have fails: "bid_fails fourth_times_out [''a'', ''b'', ''c''] 3 ConfirmationTimeoutError"
    by (simp add: bid_fails_def fourth_times_out_def)
  from failed_bid_aborts_simulation [OF bidders fourth earlier fails, of 0 5, unfolded Let_def]
  show ?thesis by simp
qed

end
